theory Spec2Isabelle
  imports Complex_Main "HOL-Library.Word"
begin

unbundle bit_operations_syntax

section \<open>Machine types\<close>

type_synonym Uint8 = "8 word"
type_synonym Uint16 = "16 word"
type_synonym Sint16 = "16 word"
type_synonym Uint32 = "32 word"
type_synonym Sint32 = "32 word"
type_synonym Uint64 = "64 word"
type_synonym SDL_JoystickID = "32 word"

section \<open>Driver registry\<close>

text \<open>
  The array \<open>SDL_joystick_drivers\<close> is a list of drivers; what the core reads of a
  driver in \<open>SDL_GetDriverAndJoystickIndex\<close> is \<open>GetCount()\<close> and
  \<open>GetDeviceInstanceID(device_index)\<close>, so a driver is the list of the instance ids
  of its devices, in device-index order.
\<close>

type_synonym SDL_JoystickDriver = "SDL_JoystickID list"

text \<open>The inner loop of \<open>SDL_GetDriverAndJoystickIndex\<close>, from \<open>device_index\<close> on.\<close>

fun device_index_loop :: "SDL_JoystickID \<Rightarrow> SDL_JoystickDriver \<Rightarrow> nat \<Rightarrow> nat option" where
  "device_index_loop instance_id [] device_index = None"
| "device_index_loop instance_id (joystick_id # rest) device_index =
     (if joystick_id = instance_id then Some device_index
      else device_index_loop instance_id rest (Suc device_index))"

text \<open>The outer loop, from driver \<open>i\<close> on.\<close>

fun driver_loop :: "SDL_JoystickID \<Rightarrow> SDL_JoystickDriver list \<Rightarrow> nat \<Rightarrow> (nat \<times> nat) option" where
  "driver_loop instance_id [] i = None"
| "driver_loop instance_id (drv # rest) i =
     (case device_index_loop instance_id drv 0 of
        Some device_index \<Rightarrow> Some (i, device_index)
      | None \<Rightarrow> driver_loop instance_id rest (Suc i))"

text \<open>
  \<open>SDL_GetDriverAndJoystickIndex\<close>: \<open>Some (driver, driver_index)\<close> for \<open>SDL_TRUE\<close>,
  \<open>None\<close> for \<open>SDL_FALSE\<close> (the error string it sets is not modelled).
\<close>

definition SDL_GetDriverAndJoystickIndex ::
  "SDL_JoystickDriver list \<Rightarrow> SDL_JoystickID \<Rightarrow> (nat \<times> nat) option" where
  "SDL_GetDriverAndJoystickIndex drivers instance_id =
     (if instance_id > 0 then driver_loop instance_id drivers 0 else None)"

section \<open>Player-index table\<close>

text \<open>
  \<open>SDL_joystick_players\<close> with \<open>SDL_joystick_player_count\<close> is a list of instance ids
  (0 is an empty slot); the count is the length of the list. Player indices are C
  \<open>int\<close>s and may be negative.
\<close>

text \<open>\<open>SDL_FindFreePlayerIndex\<close>: the first slot holding 0, or the count.\<close>

fun SDL_FindFreePlayerIndex :: "SDL_JoystickID list \<Rightarrow> nat" where
  "SDL_FindFreePlayerIndex [] = 0"
| "SDL_FindFreePlayerIndex (p # players) =
     (if p = 0 then 0 else Suc (SDL_FindFreePlayerIndex players))"

text \<open>The loop of \<open>SDL_GetPlayerIndexForJoystickID\<close>: the first slot holding the id, or the count.\<close>

fun player_index_loop :: "SDL_JoystickID \<Rightarrow> SDL_JoystickID list \<Rightarrow> nat" where
  "player_index_loop instance_id [] = 0"
| "player_index_loop instance_id (p # players) =
     (if instance_id = p then 0 else Suc (player_index_loop instance_id players))"

definition SDL_GetPlayerIndexForJoystickID :: "SDL_JoystickID list \<Rightarrow> SDL_JoystickID \<Rightarrow> int" where
  "SDL_GetPlayerIndexForJoystickID players instance_id =
     (let player_index = player_index_loop instance_id players
      in if player_index = length players then -1 else int player_index)"

definition SDL_GetJoystickIDForPlayerIndex :: "SDL_JoystickID list \<Rightarrow> int \<Rightarrow> SDL_JoystickID" where
  "SDL_GetJoystickIDForPlayerIndex players player_index =
     (if player_index < 0 \<or> player_index \<ge> int (length players) then 0
      else players ! nat player_index)"

text \<open>
  The effects of the player-index code outside the table: the calls of
  \<open>driver->SetDevicePlayerIndex(device_index, player_index)\<close>, in order.
\<close>

datatype player_call = SetDevicePlayerIndex nat nat int

record player_table =
  SDL_joystick_players :: "SDL_JoystickID list"
  player_calls :: "player_call list"

text \<open>
  \<open>SDL_SetJoystickIDForPlayerIndex\<close>. \<open>realloc_ok n\<close> says whether \<open>SDL_realloc\<close> to
  \<open>n\<close> slots succeeds. The result of the recursive call is discarded, as in the source.
\<close>

function SDL_SetJoystickIDForPlayerIndex ::
  "SDL_JoystickDriver list \<Rightarrow> (nat \<Rightarrow> bool) \<Rightarrow> int \<Rightarrow> SDL_JoystickID
     \<Rightarrow> 'a player_table_scheme \<Rightarrow> bool \<times> 'a player_table_scheme" where
  "SDL_SetJoystickIDForPlayerIndex drivers realloc_ok player_index instance_id t =
     (let players = SDL_joystick_players t;
          existing_instance = SDL_GetJoystickIDForPlayerIndex players player_index
      in
      if player_index \<ge> int (length players) \<and> \<not> realloc_ok (nat (player_index + 1)) then
        (False, t)
      else if player_index < int (length players) \<and> player_index \<ge> 0
              \<and> players ! nat player_index = instance_id then
        (True, t)
      else
        let players1 = (if player_index \<ge> int (length players)
                        then players @ replicate (nat (player_index + 1) - length players) 0
                        else players);
            existing_player_index = SDL_GetPlayerIndexForJoystickID players1 instance_id;
            players2 = (if existing_player_index \<ge> 0
                        then players1[nat existing_player_index := 0] else players1);
            players3 = (if player_index \<ge> 0
                        then players2[nat player_index := instance_id] else players2);
            calls = (case SDL_GetDriverAndJoystickIndex drivers instance_id of
                       Some (driver, device_index) \<Rightarrow>
                         player_calls t @ [SetDevicePlayerIndex driver device_index player_index]
                     | None \<Rightarrow> player_calls t);
            t3 = t\<lparr>SDL_joystick_players := players3, player_calls := calls\<rparr>
        in if existing_instance > 0
           then (True, snd (SDL_SetJoystickIDForPlayerIndex drivers realloc_ok
                              (int (SDL_FindFreePlayerIndex players3)) existing_instance t3))
           else (True, t3))"
  by pat_completeness auto

lemma SDL_GetJoystickIDForPlayerIndex_free:
  "SDL_GetJoystickIDForPlayerIndex players (int (SDL_FindFreePlayerIndex players)) = 0"
  by (induction players) (auto simp: SDL_GetJoystickIDForPlayerIndex_def)

termination SDL_SetJoystickIDForPlayerIndex
  by (relation "measure (\<lambda>(drivers, realloc_ok, player_index, instance_id, t).
        if SDL_GetJoystickIDForPlayerIndex (SDL_joystick_players t) player_index = 0 then 0 else 1)")
     (auto simp: SDL_GetJoystickIDForPlayerIndex_free)

declare SDL_SetJoystickIDForPlayerIndex.simps [simp del]

section \<open>Joystick handles\<close>

text \<open>
  \<open>SDL_JoystickAxisInfo\<close>. The fields \<open>value\<close> and \<open>zero\<close> of the source are
  \<open>axis_value\<close> and \<open>axis_zero\<close> here. A \<open>Sint16\<close> is a 16-bit word read with \<open>sint\<close>.
\<close>

record SDL_JoystickAxisInfo =
  initial_value :: Sint16
  axis_value :: Sint16
  axis_zero :: Sint16
  has_initial_value :: bool
  has_second_value :: bool
  sent_initial_value :: bool
  sending_initial_value :: bool

text \<open>
  Touchpad fingers. The coordinates are C \<open>float\<close>s; they are modelled as reals, which
  leaves NaN out (the code only copies, compares and clamps them).
\<close>

record SDL_JoystickTouchpadFingerInfo =
  finger_state :: Uint8
  finger_x :: real
  finger_y :: real
  finger_pressure :: real

text \<open>
  The open device, \<open>SDL_Joystick\<close>. Each array of the struct and its count
  (\<open>axes\<close>/\<open>naxes\<close>, \<open>hats\<close>/\<open>nhats\<close>, \<open>buttons\<close>/\<open>nbuttons\<close>,
  \<open>touchpads\<close>/\<open>ntouchpads\<close>, \<open>fingers\<close>/\<open>nfingers\<close>) is one list: the count is its
  length, as \<open>SDL_OpenJoystick\<close> allocates the arrays with exactly the reported counts.
  \<open>magic\<close> is whether \<open>joystick->magic == &SDL_joystick_magic\<close>; \<open>handle\<close> is the
  address of the struct, the value of the C pointer. The tick counters are 64-bit.
  \<open>ref_count\<close> is a C \<open>int\<close>: 32 bits in two's complement, read with \<open>sint\<close>; \<open>++\<close> and
  \<open>--\<close> wrap around, as the compiled code does.
\<close>

record SDL_Joystick =
  handle :: nat
  magic :: bool
  instance_id :: SDL_JoystickID
  guid :: "Uint8 list"
  axes :: "SDL_JoystickAxisInfo list"
  hats :: "Uint8 list"
  buttons :: "Uint8 list"
  touchpads :: "SDL_JoystickTouchpadFingerInfo list list"
  attached :: bool
  ref_count :: Sint32
  low_frequency_rumble :: Uint16
  high_frequency_rumble :: Uint16
  rumble_expiration :: Uint64
  rumble_resend :: Uint64
  left_trigger_rumble :: Uint16
  right_trigger_rumble :: Uint16
  trigger_rumble_expiration :: Uint64
  led_red :: Uint8
  led_green :: Uint8
  led_blue :: Uint8
  led_expiration :: Uint64
  update_complete :: Uint64

definition naxes :: "SDL_Joystick \<Rightarrow> int" where
  "naxes joystick = int (length (axes joystick))"

definition nhats :: "SDL_Joystick \<Rightarrow> int" where
  "nhats joystick = int (length (hats joystick))"

definition nbuttons :: "SDL_Joystick \<Rightarrow> int" where
  "nbuttons joystick = int (length (buttons joystick))"


text \<open>
  Constants of \<open>SDL_joystick_c.h\<close> and \<open>SDL_joystick.h\<close>, which are not part of the
  sources at hand: they are parameters of the model.
\<close>

record SDL_constants =
  SDL_RUMBLE_RESEND_MS :: Uint64
  SDL_MAX_RUMBLE_DURATION_MS :: Uint32
  SDL_LED_MIN_REPEAT_MS :: Uint64
  SDL_HARDWARE_BUS_VIRTUAL :: Uint16

text \<open>Commands the core issues to the device's driver, in order.\<close>

datatype driver_call =
  Rumble Uint16 Uint16
  | RumbleTriggers Uint16 Uint16
  | SetLED Uint8 Uint8 Uint8
  | Close

section \<open>Direct state queries\<close>

text \<open>
  What a public query does: it returns a value, or sets the error string and returns a
  value, or reads the backing array outside its bounds (undefined behaviour in C; the
  index of the read is kept).
\<close>

datatype 'a query =
  Return 'a
  | ReturnError string 'a
  | OutOfBoundsRead int

text \<open>
  \<open>arr[i]\<close> for a C \<open>int\<close> index \<open>i\<close>, on an array of \<open>length arr\<close> elements.
\<close>

definition array_read :: "'a list \<Rightarrow> int \<Rightarrow> ('a \<Rightarrow> 'b) \<Rightarrow> 'b query" where
  "array_read arr i f =
     (if 0 \<le> i \<and> i < int (length arr) then Return (f (arr ! nat i)) else OutOfBoundsRead i)"

definition SDL_GetJoystickAxis :: "SDL_Joystick \<Rightarrow> int \<Rightarrow> Sint16 query" where
  "SDL_GetJoystickAxis joystick axis =
     (if \<not> magic joystick then ReturnError ''Parameter 'joystick' is invalid'' 0
      else if axis < naxes joystick then array_read (axes joystick) axis axis_value
      else ReturnError ''Joystick only has %d axes'' 0)"

definition SDL_GetJoystickHat :: "SDL_Joystick \<Rightarrow> int \<Rightarrow> Uint8 query" where
  "SDL_GetJoystickHat joystick hat =
     (if \<not> magic joystick then ReturnError ''Parameter 'joystick' is invalid'' 0
      else if hat < nhats joystick then array_read (hats joystick) hat (\<lambda>v. v)
      else ReturnError ''Joystick only has %d hats'' 0)"

definition SDL_GetJoystickButton :: "SDL_Joystick \<Rightarrow> int \<Rightarrow> Uint8 query" where
  "SDL_GetJoystickButton joystick button =
     (if \<not> magic joystick then ReturnError ''Parameter 'joystick' is invalid'' 0
      else if button < nbuttons joystick then array_read (buttons joystick) button (\<lambda>v. v)
      else ReturnError ''Joystick only has %d buttons'' 0)"

section \<open>Rumble and LED\<close>

text \<open>
  The expiration \<open>SDL_RumbleJoystick\<close> records: \<open>SDL_GetTicks() + SDL_min(duration_ms,
  SDL_MAX_RUMBLE_DURATION_MS)\<close>, set to 1 if that is 0.
\<close>

definition rumble_expiration_at :: "SDL_constants \<Rightarrow> Uint64 \<Rightarrow> Uint32 \<Rightarrow> Uint64" where
  "rumble_expiration_at c ticks duration_ms =
     (let expiration = ticks + ucast (min duration_ms (SDL_MAX_RUMBLE_DURATION_MS c))
      in if expiration = 0 then 1 else expiration)"

text \<open>
  \<open>SDL_RumbleJoystick\<close>. \<open>driver_result\<close> is what \<open>driver->Rumble\<close> returns if it is
  called; \<open>ticks_resend\<close> and \<open>ticks_expiration\<close> are what \<open>SDL_GetTicks()\<close> returns at
  its two call sites. The result is the return value, the handle afterwards and the
  driver commands issued.
\<close>

definition SDL_RumbleJoystick ::
  "SDL_constants \<Rightarrow> int \<Rightarrow> Uint64 \<Rightarrow> Uint64 \<Rightarrow> SDL_Joystick \<Rightarrow> Uint16 \<Rightarrow> Uint16 \<Rightarrow> Uint32
     \<Rightarrow> int \<times> SDL_Joystick \<times> driver_call list" where
  "SDL_RumbleJoystick c driver_result ticks_resend ticks_expiration joystick
       low_frequency_rumble' high_frequency_rumble' duration_ms =
     (if \<not> magic joystick then (-1, joystick, [])
      else
        let same = (low_frequency_rumble' = low_frequency_rumble joystick
                    \<and> high_frequency_rumble' = high_frequency_rumble joystick);
            retval = (if same then 0 else driver_result);
            calls = (if same then [] else [Rumble low_frequency_rumble' high_frequency_rumble']);
            joystick1 = (if same then joystick
                         else joystick\<lparr>rumble_resend := ticks_resend + SDL_RUMBLE_RESEND_MS c\<rparr>)
        in if retval = 0 then
             let joystick2 = joystick1\<lparr>low_frequency_rumble := low_frequency_rumble',
                                        high_frequency_rumble := high_frequency_rumble'\<rparr>
             in if (low_frequency_rumble' \<noteq> 0 \<or> high_frequency_rumble' \<noteq> 0) \<and> duration_ms \<noteq> 0 then
                  (retval,
                   joystick2\<lparr>rumble_expiration :=
                               rumble_expiration_at c ticks_expiration duration_ms\<rparr>,
                   calls)
                else (retval, joystick2\<lparr>rumble_expiration := 0, rumble_resend := 0\<rparr>, calls)
           else (retval, joystick1, calls))"

text \<open>\<open>SDL_RumbleJoystickTriggers\<close>, with the same conventions.\<close>

definition SDL_RumbleJoystickTriggers ::
  "SDL_constants \<Rightarrow> int \<Rightarrow> Uint64 \<Rightarrow> SDL_Joystick \<Rightarrow> Uint16 \<Rightarrow> Uint16 \<Rightarrow> Uint32
     \<Rightarrow> int \<times> SDL_Joystick \<times> driver_call list" where
  "SDL_RumbleJoystickTriggers c driver_result ticks_expiration joystick left_rumble right_rumble
       duration_ms =
     (if \<not> magic joystick then (-1, joystick, [])
      else
        let same = (left_rumble = left_trigger_rumble joystick
                    \<and> right_rumble = right_trigger_rumble joystick);
            retval = (if same then 0 else driver_result);
            calls = (if same then [] else [RumbleTriggers left_rumble right_rumble])
        in if retval = 0 then
             let joystick2 = joystick\<lparr>left_trigger_rumble := left_rumble,
                                       right_trigger_rumble := right_rumble\<rparr>
             in if (left_rumble \<noteq> 0 \<or> right_rumble \<noteq> 0) \<and> duration_ms \<noteq> 0 then
                  (retval,
                   joystick2\<lparr>trigger_rumble_expiration := ticks_expiration
                        + ucast (min duration_ms (SDL_MAX_RUMBLE_DURATION_MS c))\<rparr>,
                   calls)
                else (retval, joystick2\<lparr>trigger_rumble_expiration := 0\<rparr>, calls)
           else (retval, joystick, calls))"

text \<open>
  \<open>SDL_SetJoystickLED\<close>. \<open>ticks_check\<close> is \<open>SDL_GetTicks()\<close> in the condition (read only
  when the value is not fresh), \<open>ticks_set\<close> the one that sets \<open>led_expiration\<close>.
\<close>

definition SDL_SetJoystickLED ::
  "SDL_constants \<Rightarrow> int \<Rightarrow> Uint64 \<Rightarrow> Uint64 \<Rightarrow> SDL_Joystick \<Rightarrow> Uint8 \<Rightarrow> Uint8 \<Rightarrow> Uint8
     \<Rightarrow> int \<times> SDL_Joystick \<times> driver_call list" where
  "SDL_SetJoystickLED c driver_result ticks_check ticks_set joystick red green blue =
     (if \<not> magic joystick then (-1, joystick, [])
      else
        let isfreshvalue = (red \<noteq> led_red joystick \<or> green \<noteq> led_green joystick
                            \<or> blue \<noteq> led_blue joystick);
            issue = (isfreshvalue \<or> ticks_check \<ge> led_expiration joystick);
            retval = (if issue then driver_result else 0);
            calls = (if issue then [SetLED red green blue] else []);
            joystick1 = (if issue
                         then joystick\<lparr>led_expiration := ticks_set + SDL_LED_MIN_REPEAT_MS c\<rparr>
                         else joystick)
        in (retval, joystick1\<lparr>led_red := red, led_green := green, led_blue := blue\<rparr>, calls))"



section \<open>Event production\<close>

datatype SDL_EventType =
  SDL_EVENT_JOYSTICK_AXIS_MOTION
  | SDL_EVENT_JOYSTICK_HAT_MOTION
  | SDL_EVENT_JOYSTICK_BUTTON_DOWN
  | SDL_EVENT_JOYSTICK_BUTTON_UP
  | SDL_EVENT_JOYSTICK_REMOVED
  | SDL_EVENT_GAMEPAD_TOUCHPAD_DOWN
  | SDL_EVENT_GAMEPAD_TOUCHPAD_MOTION
  | SDL_EVENT_GAMEPAD_TOUCHPAD_UP

text \<open>
  The events the core builds, with the fields it fills in:
  \<open>jaxis timestamp which axis value\<close>, \<open>jhat timestamp which hat value\<close>,
  \<open>jbutton type timestamp which button state\<close>, \<open>jdevice type timestamp which\<close>,
  \<open>gtouchpad type timestamp which touchpad finger x y pressure\<close>.
\<close>

datatype SDL_Event =
  jaxis Uint64 SDL_JoystickID Uint8 Sint16
  | jhat Uint64 SDL_JoystickID Uint8 Uint8
  | jbutton SDL_EventType Uint64 SDL_JoystickID Uint8 Uint8
  | jdevice SDL_EventType Uint64 SDL_JoystickID
  | gtouchpad SDL_EventType Uint64 SDL_JoystickID int int real real real

text \<open>
  What the event code reads from outside this file: whether an event type is enabled
  (\<open>SDL_EventEnabled\<close>), what \<open>SDL_PushEvent\<close> returns for an event, whether the
  application has windows and whether one of them has the keyboard focus; and the
  static \<open>SDL_joystick_allows_background_events\<close>, which only the hint callback writes.
\<close>

record SDL_env =
  SDL_EventEnabled :: "SDL_EventType \<Rightarrow> bool"
  SDL_PushEvent :: "SDL_Event \<Rightarrow> int"
  SDL_joystick_allows_background_events :: bool
  SDL_HasWindows :: bool
  SDL_GetKeyboardFocus :: bool

definition SDL_PrivateJoystickShouldIgnoreEvent :: "SDL_env \<Rightarrow> bool" where
  "SDL_PrivateJoystickShouldIgnoreEvent env =
     (if SDL_joystick_allows_background_events env then False
      else if SDL_HasWindows env \<and> \<not> SDL_GetKeyboardFocus env then True
      else False)"

text \<open>
  Constants of SDL's public headers (\<open>SDL_joystick.h\<close>, \<open>SDL_events.h\<close>), which are not
  among the sources at hand; the axis range is the one the specification names
  (scale \<open>\<plusminus>32767\<close>).
\<close>

definition SDL_JOYSTICK_AXIS_MAX :: int where
  "SDL_JOYSTICK_AXIS_MAX = 32767"

definition SDL_RELEASED :: Uint8 where
  "SDL_RELEASED = 0"

definition SDL_PRESSED :: Uint8 where
  "SDL_PRESSED = 1"

definition SDL_HAT_CENTERED :: Uint8 where
  "SDL_HAT_CENTERED = 0"

definition SDL_IsJoystickVIRTUAL :: "Uint8 list \<Rightarrow> bool" where
  "SDL_IsJoystickVIRTUAL guid_data = (guid_data ! 14 = 0x76)"

text \<open>Posting an event if its type is enabled: the value of \<open>posted\<close> and the events pushed.\<close>

definition post_event :: "SDL_env \<Rightarrow> SDL_EventType \<Rightarrow> SDL_Event \<Rightarrow> int \<times> SDL_Event list" where
  "post_event env type event =
     (if SDL_EventEnabled env type
      then (if SDL_PushEvent env event = 1 then 1 else 0, [event])
      else (0, []))"

subsection \<open>Axes\<close>

definition set_axis :: "SDL_Joystick \<Rightarrow> nat \<Rightarrow> SDL_JoystickAxisInfo \<Rightarrow> SDL_Joystick" where
  "set_axis joystick a info = joystick\<lparr>axes := (axes joystick)[a := info]\<rparr>"

text \<open>
  The first \<open>if / else if / else\<close> of \<open>SDL_SendJoystickAxis\<close>: the axis info afterwards,
  or \<open>None\<close> where the function returns 0.
\<close>

definition axis_initial_value :: "SDL_JoystickAxisInfo \<Rightarrow> Sint16 \<Rightarrow> SDL_JoystickAxisInfo option" where
  "axis_initial_value info v =
     (if \<not> has_initial_value info
         \<or> (\<not> has_second_value info
             \<and> (sint (initial_value info) \<le> -32767 \<or> sint (initial_value info) = 32767)
             \<and> \<bar>sint v\<bar> < SDL_JOYSTICK_AXIS_MAX div 4)
      then Some (info\<lparr>initial_value := v, axis_value := v, axis_zero := v,
                      has_initial_value := True\<rparr>)
      else if v = axis_value info \<and> \<not> sending_initial_value info then None
      else Some (info\<lparr>has_second_value := True\<rparr>))"

text \<open>
  The end of \<open>SDL_SendJoystickAxis\<close>, from the focus check on; \<open>events\<close> are the events
  pushed so far by the recursive call.
\<close>

definition axis_send :: "SDL_env \<Rightarrow> Uint64 \<Rightarrow> SDL_Joystick \<Rightarrow> Uint8 \<Rightarrow> Sint16 \<Rightarrow> SDL_Event list
    \<Rightarrow> int \<times> SDL_Joystick \<times> SDL_Event list" where
  "axis_send env timestamp joystick axis v events =
     (let info = axes joystick ! unat axis in
      if SDL_PrivateJoystickShouldIgnoreEvent env
         \<and> (sending_initial_value info
             \<or> (sint v > sint (axis_zero info) \<and> sint v \<ge> sint (axis_value info))
             \<or> (sint v < sint (axis_zero info) \<and> sint v \<le> sint (axis_value info)))
      then (0, joystick, events)
      else
        let joystick1 = (set_axis joystick (unat axis) (info\<lparr>axis_value := v\<rparr>))
                          \<lparr>update_complete := timestamp\<rparr>;
            (posted, pushed) = post_event env SDL_EVENT_JOYSTICK_AXIS_MOTION
                                 (jaxis timestamp (instance_id joystick) axis v)
        in (posted, joystick1, events @ pushed))"

function SDL_SendJoystickAxis ::
  "SDL_env \<Rightarrow> Uint64 \<Rightarrow> SDL_Joystick \<Rightarrow> Uint8 \<Rightarrow> Sint16 \<Rightarrow> int \<times> SDL_Joystick \<times> SDL_Event list" where
  "SDL_SendJoystickAxis env timestamp joystick axis v =
     (if int (unat axis) \<ge> naxes joystick then (0, joystick, [])
      else
        case axis_initial_value (axes joystick ! unat axis) v of
          None \<Rightarrow> (0, joystick, [])
        | Some info \<Rightarrow>
            if \<not> sent_initial_value info then
              let MAX_ALLOWED_JITTER = SDL_JOYSTICK_AXIS_MAX div 80 in
              if \<bar>sint v - sint (axis_value info)\<bar> \<le> MAX_ALLOWED_JITTER
                 \<and> \<not> SDL_IsJoystickVIRTUAL (guid joystick)
              then (0, set_axis joystick (unat axis) info, [])
              else
                let joystick1 = set_axis joystick (unat axis)
                                  (info\<lparr>sent_initial_value := True, sending_initial_value := True\<rparr>);
                    (posted, joystick2, events) =
                       SDL_SendJoystickAxis env timestamp joystick1 axis (initial_value info);
                    joystick3 = set_axis joystick2 (unat axis)
                                  ((axes joystick2 ! unat axis)\<lparr>sending_initial_value := False\<rparr>)
                in axis_send env timestamp joystick3 axis v events
            else axis_send env timestamp (set_axis joystick (unat axis) info) axis v [])"
  by pat_completeness auto

lemma axis_initial_value_sent:
  "axis_initial_value info v = Some info' \<Longrightarrow> sent_initial_value info' = sent_initial_value info"
  by (auto simp: axis_initial_value_def split: if_splits)

lemma index_in_range: "\<not> int (length xs) \<le> uint (i :: Uint8) \<Longrightarrow> unat i < length xs"
proof -
  assume "\<not> int (length xs) \<le> uint i"
  then have "int (unat i) < int (length xs)" by simp
  then show ?thesis by (simp only: of_nat_less_iff)
qed

termination SDL_SendJoystickAxis
  by (relation "measure (\<lambda>(env, timestamp, joystick, axis, v).
        if unat axis < length (axes joystick) \<and> \<not> sent_initial_value (axes joystick ! unat axis)
        then 1 else 0)")
     (auto simp: set_axis_def naxes_def index_in_range dest: axis_initial_value_sent)

declare SDL_SendJoystickAxis.simps [simp del]

subsection \<open>Hats and buttons\<close>

definition SDL_SendJoystickHat ::
  "SDL_env \<Rightarrow> Uint64 \<Rightarrow> SDL_Joystick \<Rightarrow> Uint8 \<Rightarrow> Uint8 \<Rightarrow> int \<times> SDL_Joystick \<times> SDL_Event list" where
  "SDL_SendJoystickHat env timestamp joystick hat v =
     (if int (unat hat) \<ge> nhats joystick then (0, joystick, [])
      else if v = hats joystick ! unat hat then (0, joystick, [])
      else if SDL_PrivateJoystickShouldIgnoreEvent env \<and> v \<noteq> SDL_HAT_CENTERED then (0, joystick, [])
      else
        let joystick1 = joystick\<lparr>hats := (hats joystick)[unat hat := v],
                                  update_complete := timestamp\<rparr>;
            (posted, pushed) = post_event env SDL_EVENT_JOYSTICK_HAT_MOTION
                                 (jhat timestamp (instance_id joystick) hat v)
        in (posted, joystick1, pushed))"

definition SDL_SendJoystickButton ::
  "SDL_env \<Rightarrow> Uint64 \<Rightarrow> SDL_Joystick \<Rightarrow> Uint8 \<Rightarrow> Uint8 \<Rightarrow> int \<times> SDL_Joystick \<times> SDL_Event list" where
  "SDL_SendJoystickButton env timestamp joystick button state =
     (if state \<noteq> SDL_PRESSED \<and> state \<noteq> SDL_RELEASED then (0, joystick, [])
      else
        let type = (if state = SDL_PRESSED then SDL_EVENT_JOYSTICK_BUTTON_DOWN
                    else SDL_EVENT_JOYSTICK_BUTTON_UP) in
        if int (unat button) \<ge> nbuttons joystick then (0, joystick, [])
        else if state = buttons joystick ! unat button then (0, joystick, [])
        else if SDL_PrivateJoystickShouldIgnoreEvent env \<and> state = SDL_PRESSED then (0, joystick, [])
        else
          let joystick1 = joystick\<lparr>buttons := (buttons joystick)[unat button := state],
                                    update_complete := timestamp\<rparr>;
              (posted, pushed) = post_event env type
                                   (jbutton type timestamp (instance_id joystick) button state)
          in (posted, joystick1, pushed))"

subsection \<open>Touchpads\<close>



subsection \<open>Forced recentering\<close>







section \<open>GUID encoding\<close>

text \<open>
  An \<open>SDL_JoystickGUID\<close> is its 16 bytes \<open>guid.data\<close>. The code writes and reads them
  through a \<open>Uint16 *\<close> with \<open>SDL_SwapLE16\<close>, so word \<open>i\<close> is bytes \<open>2i\<close> (low) and
  \<open>2i + 1\<close> (high) on every host.
\<close>

definition le16 :: "Uint16 \<Rightarrow> Uint8 list" where
  "le16 w = [ucast w, ucast (drop_bit 8 w)]"

definition guid16 :: "Uint8 list \<Rightarrow> nat \<Rightarrow> Uint16" where
  "guid16 data i = push_bit 8 (ucast (data ! (2 * i + 1))) OR ucast (data ! (2 * i))"

text \<open>The C string held in a buffer: the bytes before the first NUL.\<close>

definition c_str :: "Uint8 list \<Rightarrow> Uint8 list" where
  "c_str buffer = takeWhile (\<lambda>b. b \<noteq> 0) buffer"

text \<open>
  \<open>SDL_strlcpy(dst, src, maxlen)\<close> into a zeroed region of \<open>maxlen\<close> bytes: at most
  \<open>maxlen - 1\<close> bytes of the string, then NULs.
\<close>

definition SDL_strlcpy :: "Uint8 list \<Rightarrow> nat \<Rightarrow> Uint8 list" where
  "SDL_strlcpy src maxlen =
     (let copied = take (maxlen - 1) src in copied @ replicate (maxlen - length copied) 0)"

text \<open>The string \<open>name\<close> points to; \<open>None\<close> is the NULL pointer, read as \<open>""\<close>.\<close>

definition name_bytes :: "Uint8 list option \<Rightarrow> Uint8 list" where
  "name_bytes name = (case name of None \<Rightarrow> [] | Some buffer \<Rightarrow> c_str buffer)"

text \<open>
  \<open>SDL_CreateJoystickGUID\<close>. \<open>crc16 s\<close> stands for \<open>SDL_crc16(0, s, SDL_strlen(s))\<close>,
  which is defined outside this file.
\<close>

definition SDL_CreateJoystickGUID ::
  "(Uint8 list \<Rightarrow> Uint16) \<Rightarrow> Uint16 \<Rightarrow> Uint16 \<Rightarrow> Uint16 \<Rightarrow> Uint16 \<Rightarrow> Uint8 list option
     \<Rightarrow> Uint8 \<Rightarrow> Uint8 \<Rightarrow> Uint8 list" where
  "SDL_CreateJoystickGUID crc16 bus vendor product version name driver_signature driver_data =
     (let name1 = name_bytes name;
          head = le16 bus @ le16 (crc16 name1)
      in
      if vendor \<noteq> 0 \<and> product \<noteq> 0 then
        head @ le16 vendor @ [0, 0] @ le16 product @ [0, 0] @ le16 version
          @ [driver_signature, driver_data]
      else
        let available_space = (if driver_signature \<noteq> 0 then 16 - 4 - 2 else 16 - 4) in
        head @ SDL_strlcpy name1 available_space
          @ (if driver_signature \<noteq> 0 then [driver_signature, driver_data] else []))"

text \<open>
  \<open>SDL_GetJoystickGUIDInfo\<close>: the vendor, product, version and crc16 it stores through
  its pointers. The tests \<open>guid16[3] == 0x0000\<close> and \<open>guid16[5] == 0x0000\<close> read the words
  in host order; a word is zero in either byte order.
\<close>

definition SDL_GetJoystickGUIDInfo ::
  "SDL_constants \<Rightarrow> Uint8 list \<Rightarrow> Uint16 \<times> Uint16 \<times> Uint16 \<times> Uint16" where
  "SDL_GetJoystickGUIDInfo c data =
     (let bus = guid16 data 0 in
      if (bus < 0x20 \<or> bus = SDL_HARDWARE_BUS_VIRTUAL c) \<and> guid16 data 3 = 0 \<and> guid16 data 5 = 0
      then (guid16 data 2, guid16 data 4, guid16 data 6, guid16 data 1)
      else if bus < 0x20 \<or> bus = SDL_HARDWARE_BUS_VIRTUAL c
      then (0, 0, 0, guid16 data 1)
      else (0, 0, 0, 0))"


section \<open>The registry\<close>

text \<open>
  What the core hands to its collaborators, in order: events given to \<open>SDL_PushEvent\<close>
  and calls of \<open>SDL_PrivateGamepadRemoved\<close>.
\<close>

datatype notification =
  PushEvent SDL_Event
  | GamepadRemoved SDL_JoystickID

text \<open>
  The process-wide state: the player-index table, the linked list \<open>SDL_joysticks\<close>
  (head first), the notifications and the driver commands issued so far (each with the
  handle it was issued for). \<open>next_handle\<close> models the allocator: \<open>SDL_calloc\<close> returns
  an address that was never handed out before.
\<close>

record SDL_state = player_table +
  SDL_joysticks :: "SDL_Joystick list"
  next_handle :: nat
  notifications :: "notification list"
  driver_calls :: "(nat \<times> driver_call) list"

subsection \<open>Hot-plug removal\<close>



subsection \<open>Open and close\<close>

text \<open>
  What \<open>driver->Update\<close> does to the core: it reports samples through the
  state-change entry points.
\<close>

datatype driver_report =
  AxisReport Uint8 Sint16
  | HatReport Uint8 Uint8
  | ButtonReport Uint8 Uint8

fun send_report ::
  "SDL_env \<Rightarrow> Uint64 \<Rightarrow> driver_report \<Rightarrow> SDL_Joystick \<Rightarrow> int \<times> SDL_Joystick \<times> SDL_Event list" where
  "send_report env timestamp (AxisReport axis v) joystick =
     SDL_SendJoystickAxis env timestamp joystick axis v"
| "send_report env timestamp (HatReport hat v) joystick =
     SDL_SendJoystickHat env timestamp joystick hat v"
| "send_report env timestamp (ButtonReport button state) joystick =
     SDL_SendJoystickButton env timestamp joystick button state"

fun driver_Update ::
  "SDL_env \<Rightarrow> Uint64 \<Rightarrow> driver_report list \<Rightarrow> SDL_Joystick \<Rightarrow> SDL_Joystick \<times> SDL_Event list" where
  "driver_Update env timestamp [] joystick = (joystick, [])"
| "driver_Update env timestamp (r # reports) joystick =
     (case send_report env timestamp r joystick of
        (posted, joystick1, pushed) \<Rightarrow>
          (case driver_Update env timestamp reports joystick1 of
             (joystick2, events) \<Rightarrow> (joystick2, pushed @ events)))"

text \<open>What a call of \<open>SDL_CloseJoystick\<close> gets from outside: the results of the driver's
  rumble commands, should it issue them, and the tick count.\<close>

record close_oracle =
  Rumble_result :: int
  RumbleTriggers_result :: int
  close_ticks :: Uint64

text \<open>The loop of \<open>SDL_CloseJoystick\<close> that unlinks the entry with the given address.\<close>

fun unlink :: "nat \<Rightarrow> SDL_Joystick list \<Rightarrow> SDL_Joystick list" where
  "unlink h [] = []"
| "unlink h (joysticklist # rest) =
     (if handle joysticklist = h then rest else joysticklist # unlink h rest)"

text \<open>
  A write through the pointer \<open>joystick\<close>: the list entry at that address gets the new
  contents \<open>joystick1\<close>.
\<close>

definition store :: "SDL_Joystick \<Rightarrow> SDL_Joystick \<Rightarrow> SDL_Joystick \<Rightarrow> SDL_Joystick" where
  "store joystick joystick1 = (\<lambda>j. if handle j = handle joystick then joystick1 else j)"

text \<open>
  \<open>SDL_CloseJoystick\<close> after the validation of the handle, for the struct \<open>joystick\<close>
  (which is the list entry with that address, if it is linked). The struct is freed at
  the end, so only the list and the driver commands remain of the close.
\<close>

definition close_joystick ::
  "SDL_constants \<Rightarrow> close_oracle \<Rightarrow> SDL_Joystick \<Rightarrow> SDL_state \<Rightarrow> SDL_state" where
  "close_joystick c oracle joystick st =
     (let joystick1 = joystick\<lparr>ref_count := ref_count joystick - 1\<rparr> in
      if sint (ref_count joystick1) > 0 then
        st\<lparr>SDL_joysticks := map (store joystick joystick1) (SDL_joysticks st)\<rparr>
      else
        let (retval1, joystick2, calls1) =
              (if rumble_expiration joystick1 \<noteq> 0
               then SDL_RumbleJoystick c (Rumble_result oracle) (close_ticks oracle)
                      (close_ticks oracle) joystick1 0 0 0
               else (0, joystick1, []));
            (retval2, joystick3, calls2) =
              (if trigger_rumble_expiration joystick2 \<noteq> 0
               then SDL_RumbleJoystickTriggers c (RumbleTriggers_result oracle)
                      (close_ticks oracle) joystick2 0 0 0
               else (0, joystick2, []))
        in st\<lparr>SDL_joysticks := unlink (handle joystick) (SDL_joysticks st),
              driver_calls := driver_calls st
                                @ map (Pair (handle joystick)) (calls1 @ calls2 @ [Close])\<rparr>)"


text \<open>
  What a call of \<open>SDL_OpenJoystick\<close> gets from outside: whether its allocations
  succeed, what \<open>driver->Open\<close> returns and the counts it leaves in the struct, the GUID
  the driver names, the tick count, and what \<open>driver->Update\<close> reports.
\<close>

record open_oracle =
  calloc_joystick :: bool
  Open_result :: int
  Open_naxes :: nat
  Open_nhats :: nat
  Open_nbuttons :: nat
  GetDeviceGUID :: "Uint8 list"
  calloc_axes :: bool
  calloc_hats :: bool
  calloc_buttons :: bool
  open_ticks :: Uint64
  Update_timestamp :: Uint64
  Update_reports :: "driver_report list"
  rollback :: close_oracle

definition zeroed_axis :: SDL_JoystickAxisInfo where
  "zeroed_axis = \<lparr>initial_value = 0, axis_value = 0, axis_zero = 0, has_initial_value = False,
     has_second_value = False, sent_initial_value = False, sending_initial_value = False\<rparr>"

text \<open>The struct after \<open>SDL_calloc\<close> and the first assignments of \<open>SDL_OpenJoystick\<close>.\<close>

definition new_joystick :: "nat \<Rightarrow> SDL_JoystickID \<Rightarrow> Uint64 \<Rightarrow> SDL_Joystick" where
  "new_joystick h iid ticks =
     \<lparr>handle = h, magic = True, instance_id = iid, guid = replicate 16 0, axes = [], hats = [],
      buttons = [], touchpads = [], attached = True, ref_count = 0, low_frequency_rumble = 0,
      high_frequency_rumble = 0, rumble_expiration = 0, rumble_resend = 0,
      left_trigger_rumble = 0, right_trigger_rumble = 0, trigger_rumble_expiration = 0,
      led_red = 0, led_green = 0, led_blue = 0, led_expiration = ticks, update_complete = 0\<rparr>"

text \<open>
  \<open>SDL_JoystickAxesCenteredAtZero\<close> (the branch without \<open>__WINRT__\<close>); the vendor and
  product are read from the GUID as \<open>SDL_GetJoystickVendor\<close> and
  \<open>SDL_GetJoystickProduct\<close> do.
\<close>

definition SDL_JoystickAxesCenteredAtZero :: "SDL_constants \<Rightarrow> SDL_Joystick \<Rightarrow> bool" where
  "SDL_JoystickAxesCenteredAtZero c joystick =
     (case SDL_GetJoystickGUIDInfo c (guid joystick) of
        (vendor, product, version, crc) \<Rightarrow>
          naxes joystick = 2
          \<or> (vendor, product) \<in> set [(0x0e8f, 0x3013), (0x05a0, 0x3232)])"

text \<open>
  The struct \<open>SDL_OpenJoystick\<close> links into the list: after \<open>driver->Open\<close> and
  \<open>GetDeviceGUID\<close>, with its arrays allocated, the axes of a device centered at zero
  marked, and the reference taken.
\<close>

definition opened_joystick :: "SDL_constants \<Rightarrow> open_oracle \<Rightarrow> nat \<Rightarrow> SDL_JoystickID \<Rightarrow> SDL_Joystick" where
  "opened_joystick c oracle h iid =
     (let joystick1 = (new_joystick h iid (open_ticks oracle))\<lparr>guid := GetDeviceGUID oracle\<rparr>;
          joystick2 = joystick1\<lparr>axes := replicate (Open_naxes oracle) zeroed_axis,
                                 hats := replicate (Open_nhats oracle) 0,
                                 buttons := replicate (Open_nbuttons oracle) 0\<rparr>;
          joystick3 = (if SDL_JoystickAxesCenteredAtZero c joystick2
                       then joystick2\<lparr>axes := map (\<lambda>info. info\<lparr>has_initial_value := True\<rparr>)
                                                    (axes joystick2)\<rparr>
                       else joystick2)
      in joystick3\<lparr>ref_count := ref_count joystick3 + 1\<rparr>)"

text \<open>
  The part of \<open>SDL_OpenJoystick\<close> after the search of the list (\<open>Create and initialize
  the joystick\<close>). Names, paths, the power level and the sensor fusion are not modelled.
\<close>

definition create_joystick ::
  "SDL_constants \<Rightarrow> SDL_env \<Rightarrow> open_oracle \<Rightarrow> SDL_JoystickID \<Rightarrow> SDL_state \<Rightarrow> nat option \<times> SDL_state" where
  "create_joystick c env oracle iid st =
     (if \<not> calloc_joystick oracle then (None, st)
      else
        let h = next_handle st;
            st1 = st\<lparr>next_handle := Suc h\<rparr>
        in
        if Open_result oracle < 0 then (None, st1)
        else if (Open_naxes oracle > 0 \<and> \<not> calloc_axes oracle)
                \<or> (Open_nhats oracle > 0 \<and> \<not> calloc_hats oracle)
                \<or> (Open_nbuttons oracle > 0 \<and> \<not> calloc_buttons oracle)
        then (None,
              close_joystick c (rollback oracle)
                ((new_joystick h iid (open_ticks oracle))\<lparr>guid := GetDeviceGUID oracle\<rparr>) st1)
        else
          let (joystick, events) = driver_Update env (Update_timestamp oracle)
                                     (Update_reports oracle) (opened_joystick c oracle h iid)
          in (Some h,
              st1\<lparr>SDL_joysticks := joystick # SDL_joysticks st,
                   notifications := notifications st @ map PushEvent events\<rparr>))"

text \<open>
  \<open>SDL_OpenJoystick\<close>: the pointer returned (\<open>None\<close> for NULL) and the state afterwards.
\<close>

definition SDL_OpenJoystick ::
  "SDL_constants \<Rightarrow> SDL_env \<Rightarrow> SDL_JoystickDriver list \<Rightarrow> open_oracle \<Rightarrow> SDL_JoystickID \<Rightarrow> SDL_state
     \<Rightarrow> nat option \<times> SDL_state" where
  "SDL_OpenJoystick c env drivers oracle iid st =
     (case SDL_GetDriverAndJoystickIndex drivers iid of
        None \<Rightarrow> (None, st)
      | Some (driver, device_index) \<Rightarrow>
          (case find (\<lambda>j. iid = instance_id j) (SDL_joysticks st) of
             Some joystick \<Rightarrow>
               (Some (handle joystick),
                st\<lparr>SDL_joysticks :=
                     map (store joystick (joystick\<lparr>ref_count := ref_count joystick + 1\<rparr>))
                         (SDL_joysticks st)\<rparr>)
           | None \<Rightarrow> create_joystick c env oracle iid st))"

section \<open>Properties and example values\<close>

text \<open>Each non-zero instance id occupies at most one slot of the player-index table.\<close>

definition slot_unique :: "SDL_JoystickID list \<Rightarrow> bool" where
  "slot_unique players =
     (\<forall>i j. i < length players \<and> j < length players \<and> players ! i \<noteq> 0 \<and> players ! i = players ! j
            \<longrightarrow> i = j)"

text \<open>
  A sequence of calls of \<open>SDL_SetJoystickIDForPlayerIndex\<close>, each with the behaviour of
  \<open>SDL_realloc\<close> during the call, its player index and its instance id.
\<close>

fun player_index_calls ::
  "SDL_JoystickDriver list \<Rightarrow> ((nat \<Rightarrow> bool) \<times> int \<times> SDL_JoystickID) list
     \<Rightarrow> 'a player_table_scheme \<Rightarrow> 'a player_table_scheme" where
  "player_index_calls drivers [] t = t"
| "player_index_calls drivers ((realloc_ok, player_index, iid) # calls) t =
     player_index_calls drivers calls
       (snd (SDL_SetJoystickIDForPlayerIndex drivers realloc_ok player_index iid t))"

text \<open>An allocator that never fails.\<close>

definition always :: "nat \<Rightarrow> bool" where
  "always n = True"

definition empty_table :: player_table where
  "empty_table = \<lparr>SDL_joystick_players = [], player_calls = []\<rparr>"

text \<open>A device with one axis and two buttons, as \<open>SDL_OpenJoystick\<close> leaves it, with instance id 7.\<close>

definition example_joystick :: SDL_Joystick where
  "example_joystick = (new_joystick 1 7 0)\<lparr>axes := [zeroed_axis], buttons := [0, 0], ref_count := 1\<rparr>"

text \<open>
  Values for the constants that the sources at hand do not define, and for the
  surroundings: every event type enabled, \<open>SDL_PushEvent\<close> returning 1, no window open.
\<close>

definition example_constants :: SDL_constants where
  "example_constants = \<lparr>SDL_RUMBLE_RESEND_MS = 2000, SDL_MAX_RUMBLE_DURATION_MS = 0xFFFF,
     SDL_LED_MIN_REPEAT_MS = 5000, SDL_HARDWARE_BUS_VIRTUAL = 0xFF\<rparr>"

definition all_enabled :: "SDL_EventType \<Rightarrow> bool" where
  "all_enabled type = True"

definition push_ok :: "SDL_Event \<Rightarrow> int" where
  "push_ok event = 1"

definition example_env :: SDL_env where
  "example_env = \<lparr>SDL_EventEnabled = all_enabled, SDL_PushEvent = push_ok,
     SDL_joystick_allows_background_events = False, SDL_HasWindows = False,
     SDL_GetKeyboardFocus = False\<rparr>"

text \<open>The example device while it rumbles at (1000, 1000).\<close>

definition rumbling_joystick :: SDL_Joystick where
  "rumbling_joystick = example_joystick\<lparr>low_frequency_rumble := 1000,
     high_frequency_rumble := 1000, rumble_expiration := 5000, rumble_resend := 2500\<rparr>"

text \<open>The number of bytes of the name that fit into a GUID in the form without vendor and product.\<close>

definition name_space :: "Uint8 \<Rightarrow> nat" where
  "name_space driver_signature = (if driver_signature \<noteq> 0 then 9 else 11)"

text \<open>A stand-in for \<open>SDL_crc16\<close> in the examples, and the name \<open>"Controller"\<close>.\<close>

definition example_crc16 :: "Uint8 list \<Rightarrow> Uint16" where
  "example_crc16 s = of_nat (length s) + 0x1200"

definition controller_name :: "Uint8 list" where
  "controller_name = [0x43, 0x6F, 0x6E, 0x74, 0x72, 0x6F, 0x6C, 0x6C, 0x65, 0x72]"

text \<open>An application with a window that does not have the keyboard focus.\<close>

definition unfocused_env :: SDL_env where
  "unfocused_env = \<lparr>SDL_EventEnabled = all_enabled, SDL_PushEvent = push_ok,
     SDL_joystick_allows_background_events = False, SDL_HasWindows = True,
     SDL_GetKeyboardFocus = False\<rparr>"

subsection \<open>Sequences of open and close calls\<close>



text \<open>
  The handle registered for an instance id (the first list entry with that id, as the
  search of \<open>SDL_OpenJoystick\<close> finds it) and its reference count as the C \<open>int\<close> reads,
  0 when there is none.
\<close>

definition registered :: "SDL_JoystickID \<Rightarrow> SDL_state \<Rightarrow> SDL_Joystick option" where
  "registered iid st = find (\<lambda>j. iid = instance_id j) (SDL_joysticks st)"

definition ref_count_of :: "SDL_JoystickID \<Rightarrow> SDL_state \<Rightarrow> int" where
  "ref_count_of iid st =
     (case registered iid st of None \<Rightarrow> 0 | Some joystick \<Rightarrow> sint (ref_count joystick))"



text \<open>
  What \<open>SDL_SendJoystickAxis\<close> may change in a struct, the fields that identify a
  struct in the list, and the invariant of the list: no two entries share an instance id
  or an address, every entry is allocated and valid, and its reference count is at
  least 1 and at most \<open>k\<close>.
\<close>

definition axes_changed :: "SDL_Joystick \<Rightarrow> nat \<Rightarrow> SDL_Joystick \<Rightarrow> bool" where
  "axes_changed joystick a joystick' =
     (\<exists>info uc. joystick' = joystick\<lparr>axes := (axes joystick)[a := info], update_complete := uc\<rparr>)"

definition identity :: "SDL_Joystick \<Rightarrow> nat \<times> bool \<times> SDL_JoystickID \<times> Sint32" where
  "identity joystick = (handle joystick, magic joystick, instance_id joystick, ref_count joystick)"


text \<open>
  One driver with one device, instance id 7, whose \<open>Open\<close> succeeds and reports one
  axis and two buttons; an empty registry; the calls open, open, close of that device;
  and the device lists after the device is unplugged.
\<close>

definition example_drivers :: "SDL_JoystickDriver list" where
  "example_drivers = [[7]]"

definition example_close :: close_oracle where
  "example_close = \<lparr>Rumble_result = 0, RumbleTriggers_result = 0, close_ticks = 0\<rparr>"

definition example_open :: open_oracle where
  "example_open = \<lparr>calloc_joystick = True, Open_result = 0, Open_naxes = 1, Open_nhats = 0,
     Open_nbuttons = 2, GetDeviceGUID = replicate 16 0, calloc_axes = True, calloc_hats = True,
     calloc_buttons = True, open_ticks = 0, Update_timestamp = 1, Update_reports = [],
     rollback = example_close\<rparr>"

definition example_state :: SDL_state where
  "example_state = \<lparr>SDL_joystick_players = [], player_calls = [], SDL_joysticks = [],
     next_handle = 1, notifications = [], driver_calls = []\<rparr>"




text \<open>
  The example device opened while the driver reports the axis at 100 and then at 5000
  and both buttons pressed, with player index 0; and the struct of its handle.
\<close>

definition pressed_open :: open_oracle where
  "pressed_open = example_open\<lparr>Update_reports :=
     [AxisReport 0 100, AxisReport 0 5000, ButtonReport 0 SDL_PRESSED, ButtonReport 1 SDL_PRESSED]\<rparr>"

definition pressed_state :: SDL_state where
  "pressed_state = snd (SDL_OpenJoystick example_constants example_env example_drivers pressed_open 7
     (example_state\<lparr>SDL_joystick_players := [7]\<rparr>))"






definition axis_consistent :: "SDL_JoystickAxisInfo \<Rightarrow> bool" where
  "axis_consistent info =
     ((sent_initial_value info \<longrightarrow> has_initial_value info)
      \<and> (\<not> sent_initial_value info
           \<longrightarrow> axis_value info = axis_zero info \<and> \<not> sending_initial_value info))"

definition axes_settled :: "SDL_Joystick \<Rightarrow> bool" where
  "axes_settled joystick =
     (\<forall>info \<in> set (axes joystick). axis_consistent info \<and> \<not> sending_initial_value info)"




section \<open>Verification: the player-index table\<close>

lemma player_index_loop_le: "player_index_loop iid players \<le> length players"
  by (induction players) auto

lemma player_index_loop_found:
  "player_index_loop iid players < length players
     \<Longrightarrow> players ! player_index_loop iid players = iid"
  by (induction players) auto

lemma player_index_loop_absent:
  "player_index_loop iid players = length players \<Longrightarrow> iid \<notin> set players"
  by (induction players) (auto split: if_splits)

lemma slot_unique_grow: "slot_unique players \<Longrightarrow> slot_unique (players @ replicate n 0)"
  unfolding slot_unique_def
proof (intro allI impI)
  fix i j
  assume u: "\<forall>i j. i < length players \<and> j < length players \<and> players ! i \<noteq> 0
                 \<and> players ! i = players ! j \<longrightarrow> i = j"
  assume a: "i < length (players @ replicate n 0) \<and> j < length (players @ replicate n 0)
             \<and> (players @ replicate n 0) ! i \<noteq> 0
             \<and> (players @ replicate n 0) ! i = (players @ replicate n 0) ! j"
  then have "i < length players" "j < length players"
    by (auto simp: nth_append split: if_splits)
  with a have "players ! i \<noteq> 0 \<and> players ! i = players ! j"
    by (auto simp: nth_append)
  with u \<open>i < length players\<close> \<open>j < length players\<close> show "i = j" by blast
qed

lemma slot_unique_clear: "slot_unique players \<Longrightarrow> slot_unique (players[k := 0])"
  unfolding slot_unique_def
proof (intro allI impI)
  fix i j
  assume u: "\<forall>i j. i < length players \<and> j < length players \<and> players ! i \<noteq> 0
                 \<and> players ! i = players ! j \<longrightarrow> i = j"
  assume a: "i < length (players[k := 0]) \<and> j < length (players[k := 0])
             \<and> players[k := 0] ! i \<noteq> 0 \<and> players[k := 0] ! i = players[k := 0] ! j"
  then have "i \<noteq> k" "j \<noteq> k"
    by (auto simp: nth_list_update split: if_splits)
  with a have "i < length players \<and> j < length players \<and> players ! i \<noteq> 0
               \<and> players ! i = players ! j"
    by (auto simp: nth_list_update)
  with u show "i = j" by blast
qed

lemma slot_unique_set:
  assumes "slot_unique players" and "iid \<noteq> 0 \<Longrightarrow> iid \<notin> set players"
  shows "slot_unique (players[k := iid])"
  unfolding slot_unique_def
proof (intro allI impI)
  fix i j
  assume a: "i < length (players[k := iid]) \<and> j < length (players[k := iid])
             \<and> players[k := iid] ! i \<noteq> 0
             \<and> players[k := iid] ! i = players[k := iid] ! j"
  then have len: "i < length players" "j < length players" by simp_all
  show "i = j"
  proof (cases "i = k")
    case True
    with a len have v: "iid \<noteq> 0" "players[k := iid] ! j = iid" by auto
    show ?thesis
    proof (rule ccontr)
      assume "i \<noteq> j"
      with True v len have "players ! j = iid" by (simp add: nth_list_update)
      with len have "iid \<in> set players" by (metis nth_mem)
      with assms(2) v show False by simp
    qed
  next
    case False
    with a len have vi: "players ! i \<noteq> 0" "players ! i = players[k := iid] ! j" by auto
    show ?thesis
    proof (cases "j = k")
      case True
      with vi len have "players ! i = iid" by simp
      with len have "iid \<in> set players" by (metis nth_mem)
      with assms(2) vi \<open>players ! i = iid\<close> show ?thesis by simp
    next
      case False
      with vi have "players ! i = players ! j" by simp
      with assms(1) len vi show ?thesis unfolding slot_unique_def by blast
    qed
  qed
qed

text \<open>Once the first slot holding a non-zero id is cleared, the id is in no slot.\<close>

lemma cleared_absent:
  assumes "slot_unique players" "iid \<noteq> 0"
  shows "iid \<notin> set (let e = SDL_GetPlayerIndexForJoystickID players iid
                              in if e \<ge> 0 then players[nat e := 0] else players)"
proof (cases "player_index_loop iid players = length players")
  case True
  then show ?thesis
    by (simp add: SDL_GetPlayerIndexForJoystickID_def Let_def player_index_loop_absent)
next
  case False
  define k where "k = player_index_loop iid players"
  have k: "k < length players" "players ! k = iid"
    using False player_index_loop_le[of iid players]
      player_index_loop_found[of iid players]
    by (auto simp: k_def)
  have "iid \<notin> set (players[k := 0])"
  proof
    assume "iid \<in> set (players[k := 0])"
    then obtain j where j: "j < length players" "(players[k := 0]) ! j = iid"
      by (auto simp: in_set_conv_nth)
    with assms(2) have "j \<noteq> k" by (auto simp: nth_list_update)
    with j have "players ! j = iid" by (simp add: nth_list_update)
    with k j assms show False unfolding slot_unique_def using \<open>j \<noteq> k\<close> by metis
  qed
  then show ?thesis using False
    by (simp add: SDL_GetPlayerIndexForJoystickID_def Let_def k_def)
qed

text \<open>One call keeps the invariant, the relocation of a displaced occupant included.\<close>

lemma SDL_SetJoystickIDForPlayerIndex_slot_unique:
  "slot_unique (SDL_joystick_players t)
     \<Longrightarrow> slot_unique (SDL_joystick_players
           (snd (SDL_SetJoystickIDForPlayerIndex drivers realloc_ok player_index iid t)))"
proof (induction drivers realloc_ok player_index iid t
        rule: SDL_SetJoystickIDForPlayerIndex.induct)
  case (1 drivers realloc_ok player_index iid t)
  define players where "players = SDL_joystick_players t"
  define players1 where "players1 = (if player_index \<ge> int (length players)
                        then players @ replicate (nat (player_index + 1) - length players) 0
                        else players)"
  define e where "e = SDL_GetPlayerIndexForJoystickID players1 iid"
  define players2 where "players2 = (if e \<ge> 0 then players1[nat e := 0] else players1)"
  define players3 where "players3 = (if player_index \<ge> 0
                        then players2[nat player_index := iid] else players2)"
  have u1: "slot_unique players1"
    using "1.prems" by (simp add: players1_def players_def slot_unique_grow)
  have u2: "slot_unique players2"
    using u1 by (simp add: players2_def slot_unique_clear)
  have abs: "iid \<noteq> 0 \<Longrightarrow> iid \<notin> set players2"
    using cleared_absent[OF u1, of iid]
    by (auto simp: players2_def e_def Let_def split: if_splits)
  have u3: "slot_unique players3"
    using u2 abs by (simp add: players3_def slot_unique_set)
  have step: "SDL_SetJoystickIDForPlayerIndex drivers realloc_ok player_index iid t =
     (let existing_instance = SDL_GetJoystickIDForPlayerIndex players player_index
      in
      if player_index \<ge> int (length players) \<and> \<not> realloc_ok (nat (player_index + 1)) then
        (False, t)
      else if player_index < int (length players) \<and> player_index \<ge> 0
              \<and> players ! nat player_index = iid then
        (True, t)
      else
        let calls = (case SDL_GetDriverAndJoystickIndex drivers iid of
                       Some (driver, device_index) \<Rightarrow>
                         player_calls t @ [SetDevicePlayerIndex driver device_index player_index]
                     | None \<Rightarrow> player_calls t);
            t3 = t\<lparr>SDL_joystick_players := players3, player_calls := calls\<rparr>
        in if existing_instance > 0
           then (True, snd (SDL_SetJoystickIDForPlayerIndex drivers realloc_ok
                              (int (SDL_FindFreePlayerIndex players3)) existing_instance t3))
           else (True, t3))"
    by (subst SDL_SetJoystickIDForPlayerIndex.simps)
       (simp add: Let_def players_def players1_def e_def players2_def players3_def)
  show ?case
  proof (cases "player_index \<ge> int (length players) \<and> \<not> realloc_ok (nat (player_index + 1))")
    case True
    then show ?thesis using "1.prems" by (subst step) simp
  next
    case nofail: False
    show ?thesis
    proof (cases "player_index < int (length players) \<and> player_index \<ge> 0
              \<and> players ! nat player_index = iid")
      case True
      then show ?thesis using "1.prems" nofail by (subst step) simp
    next
      case False
      show ?thesis
      proof (cases "SDL_GetJoystickIDForPlayerIndex players player_index > 0")
        case True
        have "slot_unique (SDL_joystick_players (snd (SDL_SetJoystickIDForPlayerIndex drivers
                realloc_ok (int (SDL_FindFreePlayerIndex players3))
                (SDL_GetJoystickIDForPlayerIndex players player_index)
                (t\<lparr>SDL_joystick_players := players3,
                    player_calls := (case SDL_GetDriverAndJoystickIndex drivers iid of
                       Some (driver, device_index) \<Rightarrow>
                         player_calls t @ [SetDevicePlayerIndex driver device_index player_index]
                     | None \<Rightarrow> player_calls t)\<rparr>))))"
          unfolding players3_def players2_def e_def players1_def players_def
          apply (rule "1.IH"[OF refl refl _ _ refl refl refl refl refl refl])
          subgoal using nofail by (simp add: players_def)
          subgoal using False by (simp add: players_def)
          subgoal using True by (simp add: players_def)
          subgoal
            using u3[unfolded players3_def players2_def e_def players1_def players_def] by simp
          done
        then show ?thesis
          using nofail False True
          by (subst step) (auto simp: Let_def)
      next
        case nz: False
        then show ?thesis using nofail False u3 by (subst step) (auto simp: Let_def)
      qed
    qed
  qed
qed

text \<open>
  Claim C2. After any sequence of calls of \<open>SDL_SetJoystickIDForPlayerIndex\<close> (each with
  any player index, negative ones included, any instance id and any behaviour of the
  allocator, and with the recursive relocation of a displaced occupant), started in a
  table where each non-zero instance id occupies at most one slot (the empty table the
  subsystem starts with is one), each non-zero instance id occupies at most one slot.
  That a slot holds no two ids is how the table is built: a slot is one array cell.
\<close>

theorem player_index_slot_uniqueness:
  "slot_unique (SDL_joystick_players t)
     \<Longrightarrow> slot_unique (SDL_joystick_players (player_index_calls drivers calls t))"
proof (induction calls arbitrary: t)
  case Nil
  then show ?case by simp
next
  case (Cons call calls)
  obtain realloc_ok player_index iid where
    call: "call = (realloc_ok, player_index, iid)"
    by (cases call) auto
  show ?case
    unfolding call player_index_calls.simps
    by (rule Cons.IH) (rule SDL_SetJoystickIDForPlayerIndex_slot_unique [OF Cons.prems])
qed

text \<open>
  Instance 7 takes slot 0; instance 9 takes slot 0 and displaces 7 to slot 1; instance 9
  moves to slot 2.
\<close>

theorem player_index_slot_uniqueness_witness:
  "slot_unique (SDL_joystick_players empty_table)
   \<and> SDL_joystick_players
       (player_index_calls [] [(always, 0, 7), (always, 0, 9), (always, 2, 9)] empty_table)
     = [0, 7, 9]
   \<and> slot_unique [0, 7, 9]"
proof -
  have init: "slot_unique (SDL_joystick_players empty_table)"
    by (simp add: slot_unique_def empty_table_def)
  have run: "SDL_joystick_players
       (player_index_calls [] [(always, 0, 7), (always, 0, 9), (always, 2, 9)] empty_table)
     = [0, 7, 9]"
    by (simp add: SDL_SetJoystickIDForPlayerIndex.simps empty_table_def always_def Let_def
        SDL_GetJoystickIDForPlayerIndex_def SDL_GetPlayerIndexForJoystickID_def
        SDL_GetDriverAndJoystickIndex_def)
  from player_index_slot_uniqueness [OF init, of "[]" "[(always, 0, 7), (always, 0, 9), (always, 2, 9)]"]
  have "slot_unique [0, 7, 9]" by (simp only: run)
  with init run show ?thesis by blast
qed

section \<open>Verification: index checks\<close>

text \<open>
  Claim C8. An index that is out of range for the axes, hats or buttons of a handle,
  passed to the internal entry point (\<open>SDL_SendJoystickAxis\<close>, \<open>SDL_SendJoystickHat\<close>,
  \<open>SDL_SendJoystickButton\<close>; their index is a \<open>Uint8\<close>), returns 0, leaves the handle as
  it was and pushes no event; the same index passed to the public query
  (\<open>SDL_GetJoystickAxis\<close>, \<open>SDL_GetJoystickHat\<close>, \<open>SDL_GetJoystickButton\<close>) of a valid
  handle sets the error and returns 0.
\<close>

theorem out_of_range_index:
  assumes "magic joystick"
  shows "(int (unat i) \<ge> naxes joystick \<longrightarrow>
            SDL_SendJoystickAxis env timestamp joystick i v = (0, joystick, [])
            \<and> SDL_GetJoystickAxis joystick (int (unat i))
                = ReturnError ''Joystick only has %d axes'' 0)
       \<and> (int (unat i) \<ge> nhats joystick \<longrightarrow>
            SDL_SendJoystickHat env timestamp joystick i h = (0, joystick, [])
            \<and> SDL_GetJoystickHat joystick (int (unat i))
                = ReturnError ''Joystick only has %d hats'' 0)
       \<and> (int (unat i) \<ge> nbuttons joystick \<longrightarrow>
            SDL_SendJoystickButton env timestamp joystick i state = (0, joystick, [])
            \<and> SDL_GetJoystickButton joystick (int (unat i))
                = ReturnError ''Joystick only has %d buttons'' 0)"
  using assms
  by (simp add: SDL_SendJoystickAxis.simps SDL_GetJoystickAxis_def SDL_SendJoystickHat_def
      SDL_GetJoystickHat_def SDL_SendJoystickButton_def SDL_GetJoystickButton_def Let_def)

theorem out_of_range_index_witness:
  "magic example_joystick
   \<and> int (unat (5 :: Uint8)) \<ge> naxes example_joystick
   \<and> int (unat (5 :: Uint8)) \<ge> nhats example_joystick
   \<and> int (unat (5 :: Uint8)) \<ge> nbuttons example_joystick
   \<and> SDL_SendJoystickAxis example_env 1 example_joystick 5 300 = (0, example_joystick, [])
   \<and> SDL_GetJoystickAxis example_joystick 5 = ReturnError ''Joystick only has %d axes'' 0
   \<and> SDL_SendJoystickHat example_env 1 example_joystick 5 1 = (0, example_joystick, [])
   \<and> SDL_GetJoystickHat example_joystick 5 = ReturnError ''Joystick only has %d hats'' 0
   \<and> SDL_SendJoystickButton example_env 1 example_joystick 5 1 = (0, example_joystick, [])
   \<and> SDL_GetJoystickButton example_joystick 5 = ReturnError ''Joystick only has %d buttons'' 0"
proof -
  have m: "magic example_joystick"
    by (simp add: example_joystick_def new_joystick_def)
  have r: "int (unat (5 :: Uint8)) \<ge> naxes example_joystick"
          "int (unat (5 :: Uint8)) \<ge> nhats example_joystick"
          "int (unat (5 :: Uint8)) \<ge> nbuttons example_joystick"
    by (simp_all add: example_joystick_def new_joystick_def naxes_def nhats_def nbuttons_def)
  show ?thesis
    using m r out_of_range_index [OF m, of 5 example_env 1 300 1 1] by simp
qed

text \<open>
  Claim C9, at the failing input: for a valid handle with one axis, no hat and two
  buttons and the index \<open>-1\<close>, the guard \<open>index < count\<close> of each query holds and the
  backing array is read at \<open>-1\<close>, outside its bounds.
\<close>

theorem negative_index_out_of_bounds:
  "SDL_GetJoystickAxis example_joystick (-1) = OutOfBoundsRead (-1)
   \<and> SDL_GetJoystickHat example_joystick (-1) = OutOfBoundsRead (-1)
   \<and> SDL_GetJoystickButton example_joystick (-1) = OutOfBoundsRead (-1)"
  by (simp add: SDL_GetJoystickAxis_def SDL_GetJoystickHat_def SDL_GetJoystickButton_def
      example_joystick_def new_joystick_def naxes_def nhats_def nbuttons_def array_read_def)

section \<open>Verification: LED\<close>

text \<open>
  Claim C10. After a call of \<open>SDL_SetJoystickLED\<close> on a valid handle the stored colour
  is the colour of the call, whatever the driver returned and whether or not the driver
  was called at all; a driver command that was issued starts the cooldown at its tick
  count. A following call with the same colour whose tick count is before the stored
  expiration issues no driver command, returns 0 and leaves the handle as it is.
\<close>

theorem led_color_saved_and_repeat_suppressed:
  assumes "magic joystick"
    and "SDL_SetJoystickLED c driver_result ticks_check ticks_set joystick red green blue
           = (retval, joystick', calls)"
  shows "led_red joystick' = red \<and> led_green joystick' = green \<and> led_blue joystick' = blue
       \<and> (calls \<noteq> [] \<longrightarrow> led_expiration joystick' = ticks_set + SDL_LED_MIN_REPEAT_MS c)
       \<and> (\<forall>driver_result' ticks_check' ticks_set'.
             ticks_check' < led_expiration joystick' \<longrightarrow>
             SDL_SetJoystickLED c driver_result' ticks_check' ticks_set' joystick' red green blue
               = (0, joystick', []))"
  using assms
  by (auto simp: SDL_SetJoystickLED_def Let_def split: if_splits)

text \<open>
  The driver fails at tick 1000 (it returns \<open>-1\<close>); the colour is stored all the same,
  and the same colour at tick 2000 is suppressed.
\<close>

theorem led_color_saved_and_repeat_suppressed_witness:
  "magic example_joystick
   \<and> SDL_SetJoystickLED example_constants (-1) 1000 1000 example_joystick 255 0 0
       = (-1, example_joystick\<lparr>led_expiration := 6000, led_red := 255\<rparr>, [SetLED 255 0 0])
   \<and> (2000 :: Uint64) < led_expiration (example_joystick\<lparr>led_expiration := 6000, led_red := 255\<rparr>)
   \<and> SDL_SetJoystickLED example_constants (-1) 2000 2000
         (example_joystick\<lparr>led_expiration := 6000, led_red := 255\<rparr>) 255 0 0
       = (0, example_joystick\<lparr>led_expiration := 6000, led_red := 255\<rparr>, [])"
proof -
  have m: "magic example_joystick"
    by (simp add: example_joystick_def new_joystick_def)
  have e: "SDL_SetJoystickLED example_constants (-1) 1000 1000 example_joystick 255 0 0
       = (-1, example_joystick\<lparr>led_expiration := 6000, led_red := 255\<rparr>, [SetLED 255 0 0])"
    by (simp add: SDL_SetJoystickLED_def example_joystick_def new_joystick_def
        example_constants_def)
  have lt: "(2000 :: Uint64)
            < led_expiration (example_joystick\<lparr>led_expiration := 6000, led_red := 255\<rparr>)"
    by simp
  from led_color_saved_and_repeat_suppressed [OF m e] lt
  have "SDL_SetJoystickLED example_constants (-1) 2000 2000
         (example_joystick\<lparr>led_expiration := 6000, led_red := 255\<rparr>) 255 0 0
       = (0, example_joystick\<lparr>led_expiration := 6000, led_red := 255\<rparr>, [])"
    by blast
  with m e lt show ?thesis by blast
qed

section \<open>Verification: rumble\<close>

lemma rumble_invalid:
  "\<not> magic joystick
     \<Longrightarrow> SDL_RumbleJoystick c driver_result ticks1 ticks2 joystick low high duration_ms
         = (-1, joystick, [])"
  unfolding SDL_RumbleJoystick_def by (simp only: if_True simp_thms)

lemma rumble_changed_failure:
  assumes "magic joystick"
    and "low \<noteq> low_frequency_rumble joystick \<or> high \<noteq> high_frequency_rumble joystick"
    and "driver_result \<noteq> 0"
  shows "SDL_RumbleJoystick c driver_result ticks1 ticks2 joystick low high duration_ms
           = (driver_result, joystick\<lparr>rumble_resend := ticks1 + SDL_RUMBLE_RESEND_MS c\<rparr>,
              [Rumble low high])"
proof -
  have ns: "(low = low_frequency_rumble joystick \<and> high = high_frequency_rumble joystick) = False"
    using assms(2) by blast
  have f: "(driver_result = 0) = False" using assms(3) by simp
  show ?thesis
    unfolding SDL_RumbleJoystick_def Let_def
    by (simp only: ns f assms(1) if_True if_False simp_thms)
qed

lemma rumble_changed_active:
  assumes "magic joystick"
    and "low \<noteq> low_frequency_rumble joystick \<or> high \<noteq> high_frequency_rumble joystick"
    and "low \<noteq> 0 \<or> high \<noteq> 0" and "duration_ms \<noteq> 0"
  shows "SDL_RumbleJoystick c 0 ticks1 ticks2 joystick low high duration_ms
           = (0, joystick\<lparr>rumble_resend := ticks1 + SDL_RUMBLE_RESEND_MS c,
                          low_frequency_rumble := low, high_frequency_rumble := high,
                          rumble_expiration := rumble_expiration_at c ticks2 duration_ms\<rparr>,
              [Rumble low high])"
proof -
  have ns: "(low = low_frequency_rumble joystick \<and> high = high_frequency_rumble joystick) = False"
    using assms(2) by blast
  have nz: "(low \<noteq> 0 \<or> high \<noteq> 0) = True" using assms(3) by blast
  show ?thesis
    unfolding SDL_RumbleJoystick_def Let_def
    by (simp only: ns nz assms(1) assms(4) if_True if_False simp_thms)
qed

lemma rumble_changed_stop:
  assumes "magic joystick"
    and "low \<noteq> low_frequency_rumble joystick \<or> high \<noteq> high_frequency_rumble joystick"
    and "duration_ms = 0 \<or> (low = 0 \<and> high = 0)"
  shows "SDL_RumbleJoystick c 0 ticks1 ticks2 joystick low high duration_ms
           = (0, joystick\<lparr>rumble_resend := ticks1 + SDL_RUMBLE_RESEND_MS c,
                          low_frequency_rumble := low, high_frequency_rumble := high,
                          rumble_expiration := 0, rumble_resend := 0\<rparr>,
              [Rumble low high])"
proof -
  have ns: "(low = low_frequency_rumble joystick \<and> high = high_frequency_rumble joystick) = False"
    using assms(2) by blast
  have z: "((low \<noteq> 0 \<or> high \<noteq> 0) \<and> duration_ms \<noteq> 0) = False" using assms(3) by blast
  show ?thesis
    unfolding SDL_RumbleJoystick_def Let_def
    by (simp only: ns z assms(1) if_True if_False simp_thms)
qed

lemma rumble_same_active:
  assumes "magic joystick"
    and "low = low_frequency_rumble joystick" "high = high_frequency_rumble joystick"
    and "low \<noteq> 0 \<or> high \<noteq> 0" and "duration_ms \<noteq> 0"
  shows "SDL_RumbleJoystick c driver_result ticks1 ticks2 joystick low high duration_ms
           = (0, joystick\<lparr>rumble_expiration := rumble_expiration_at c ticks2 duration_ms\<rparr>, [])"
proof -
  have s: "(low = low_frequency_rumble joystick \<and> high = high_frequency_rumble joystick) = True"
    using assms(2,3) by blast
  have nz: "(low \<noteq> 0 \<or> high \<noteq> 0) = True" using assms(4) by blast
  have k: "joystick\<lparr>low_frequency_rumble := low, high_frequency_rumble := high\<rparr> = joystick"
    using assms(2,3) by simp
  show ?thesis
    unfolding SDL_RumbleJoystick_def Let_def
    by (simp only: s nz k assms(1) assms(5) if_True if_False simp_thms)
qed

lemma rumble_same_stop:
  assumes "magic joystick"
    and "low = low_frequency_rumble joystick" "high = high_frequency_rumble joystick"
    and "duration_ms = 0 \<or> (low = 0 \<and> high = 0)"
  shows "SDL_RumbleJoystick c driver_result ticks1 ticks2 joystick low high duration_ms
           = (0, joystick\<lparr>rumble_expiration := 0, rumble_resend := 0\<rparr>, [])"
proof -
  have s: "(low = low_frequency_rumble joystick \<and> high = high_frequency_rumble joystick) = True"
    using assms(2,3) by blast
  have z: "((low \<noteq> 0 \<or> high \<noteq> 0) \<and> duration_ms \<noteq> 0) = False" using assms(4) by blast
  have k: "joystick\<lparr>low_frequency_rumble := low, high_frequency_rumble := high\<rparr> = joystick"
    using assms(2,3) by simp
  show ?thesis
    unfolding SDL_RumbleJoystick_def Let_def
    by (simp only: s z k assms(1) if_True if_False simp_thms)
qed

lemma rumble_expiration_at_nonzero: "rumble_expiration_at c ticks duration_ms \<noteq> 0"
  by (simp add: rumble_expiration_at_def Let_def)

text \<open>
  Claim C5, as amended. Two calls of \<open>SDL_RumbleJoystick\<close> in succession on a valid
  handle, with the same magnitudes (not both zero) and a nonzero duration, where the
  magnitudes differ from the ones active before the first call and the driver accepts the
  first command (returns 0): the first call issues the one driver command, the second
  issues none and returns 0 whatever the driver would return. Each call records the
  expiration as its own tick count plus \<open>min(duration, max duration)\<close> (1 if that is
  0), so the handle holds one expiration, the second call's; the resend stays scheduled
  one interval after the first call.
\<close>

theorem rumble_twice:
  assumes "magic joystick"
    and "low \<noteq> 0 \<or> high \<noteq> 0" and "duration_ms \<noteq> 0"
    and "low \<noteq> low_frequency_rumble joystick \<or> high \<noteq> high_frequency_rumble joystick"
    and "SDL_RumbleJoystick c 0 ticks1 ticks1' joystick low high duration_ms
           = (retval1, joystick1, calls1)"
    and "SDL_RumbleJoystick c driver_result2 ticks2 ticks2' joystick1 low high duration_ms
           = (retval2, joystick2, calls2)"
  shows "calls1 = [Rumble low high] \<and> calls2 = [] \<and> retval1 = 0 \<and> retval2 = 0
       \<and> rumble_expiration joystick1 = rumble_expiration_at c ticks1' duration_ms
       \<and> rumble_expiration joystick2 = rumble_expiration_at c ticks2' duration_ms
       \<and> rumble_expiration joystick2 \<noteq> 0
       \<and> rumble_resend joystick1 = ticks1 + SDL_RUMBLE_RESEND_MS c
       \<and> rumble_resend joystick2 = ticks1 + SDL_RUMBLE_RESEND_MS c"
proof -
  have one: "retval1 = 0" "calls1 = [Rumble low high]"
    "joystick1 = joystick\<lparr>rumble_resend := ticks1 + SDL_RUMBLE_RESEND_MS c,
                          low_frequency_rumble := low, high_frequency_rumble := high,
                          rumble_expiration := rumble_expiration_at c ticks1' duration_ms\<rparr>"
    using assms(5) rumble_changed_active [OF assms(1) assms(4) assms(2) assms(3), of c ticks1 ticks1']
    by simp_all
  have m1: "magic joystick1" "low = low_frequency_rumble joystick1"
    "high = high_frequency_rumble joystick1"
    using assms(1) by (simp_all add: one(3))
  have two: "retval2 = 0" "calls2 = []"
    "joystick2 = joystick1\<lparr>rumble_expiration := rumble_expiration_at c ticks2' duration_ms\<rparr>"
    using assms(6)
      rumble_same_active [OF m1(1) m1(2,3) assms(2,3), of c driver_result2 ticks2 ticks2']
    by simp_all
  have r1: "rumble_expiration joystick1 = rumble_expiration_at c ticks1' duration_ms"
    "rumble_resend joystick1 = ticks1 + SDL_RUMBLE_RESEND_MS c"
    by (simp_all add: one(3))
  have r2: "rumble_expiration joystick2 = rumble_expiration_at c ticks2' duration_ms"
    "rumble_resend joystick2 = rumble_resend joystick1"
    by (simp_all add: two(3))
  show ?thesis
    using one(1,2) two(1,2) r1 r2 rumble_expiration_at_nonzero [of c ticks2' duration_ms]
    by simp
qed

text \<open>
  The driver accepts the command at tick 1000; the same call at tick 1200 issues nothing
  and moves the expiration from 1500 to 1700.
\<close>

theorem rumble_twice_witness:
  "magic example_joystick
   \<and> SDL_RumbleJoystick example_constants 0 1000 1000 example_joystick 1000 1000 500
      = (0, example_joystick\<lparr>rumble_resend := 3000, low_frequency_rumble := 1000,
            high_frequency_rumble := 1000, rumble_expiration := 1500\<rparr>, [Rumble 1000 1000])
   \<and> SDL_RumbleJoystick example_constants (-1) 1200 1200
        (example_joystick\<lparr>rumble_resend := 3000, low_frequency_rumble := 1000,
            high_frequency_rumble := 1000, rumble_expiration := 1500\<rparr>) 1000 1000 500
      = (0, example_joystick\<lparr>rumble_resend := 3000, low_frequency_rumble := 1000,
            high_frequency_rumble := 1000, rumble_expiration := 1700\<rparr>, [])
   \<and> rumble_expiration_at example_constants 1200 500 = 1700"
proof -
  have m: "magic example_joystick"
    by (simp add: example_joystick_def new_joystick_def)
  have a: "SDL_RumbleJoystick example_constants 0 1000 1000 example_joystick 1000 1000 500
      = (0, example_joystick\<lparr>rumble_resend := 3000, low_frequency_rumble := 1000,
            high_frequency_rumble := 1000, rumble_expiration := 1500\<rparr>, [Rumble 1000 1000])"
    by (simp add: SDL_RumbleJoystick_def example_joystick_def new_joystick_def
        example_constants_def rumble_expiration_at_def)
  have b: "SDL_RumbleJoystick example_constants (-1) 1200 1200
        (example_joystick\<lparr>rumble_resend := 3000, low_frequency_rumble := 1000,
            high_frequency_rumble := 1000, rumble_expiration := 1500\<rparr>) 1000 1000 500
      = (0, example_joystick\<lparr>rumble_resend := 3000, low_frequency_rumble := 1000,
            high_frequency_rumble := 1000, rumble_expiration := 1700\<rparr>, [])"
    by (simp add: SDL_RumbleJoystick_def example_joystick_def new_joystick_def
        example_constants_def rumble_expiration_at_def)
  have d: "(1000 :: Uint16) \<noteq> low_frequency_rumble example_joystick
           \<or> (1000 :: Uint16) \<noteq> high_frequency_rumble example_joystick"
    by (simp add: example_joystick_def new_joystick_def)
  have nz: "(1000 :: Uint16) \<noteq> 0 \<or> (1000 :: Uint16) \<noteq> 0" and dz: "(500 :: Uint32) \<noteq> 0"
    by simp_all
  from rumble_twice [OF m nz dz d a b]
  have "rumble_expiration (example_joystick\<lparr>rumble_resend := 3000, low_frequency_rumble := 1000,
            high_frequency_rumble := 1000, rumble_expiration := 1700\<rparr>)
          = rumble_expiration_at example_constants 1200 500"
    by blast
  then have "rumble_expiration_at example_constants 1200 500 = 1700" by simp
  with m a b show ?thesis by blast
qed

text \<open>
  Claim C5 as stated fails where the driver rejects the command: both calls issue a
  driver command and the second returns \<open>-1\<close>. Where the driver accepts it, each of the
  two calls records an expiration (1500, then 1700).
\<close>

theorem rumble_twice_counterexample:
  "SDL_RumbleJoystick example_constants (-1) 1000 1000 example_joystick 1000 1000 500
     = (-1, example_joystick\<lparr>rumble_resend := 3000\<rparr>, [Rumble 1000 1000])
   \<and> SDL_RumbleJoystick example_constants (-1) 1200 1200
        (example_joystick\<lparr>rumble_resend := 3000\<rparr>) 1000 1000 500
     = (-1, example_joystick\<lparr>rumble_resend := 3200\<rparr>, [Rumble 1000 1000])
   \<and> rumble_expiration (fst (snd (SDL_RumbleJoystick example_constants 0 1000 1000
        example_joystick 1000 1000 500))) = 1500
   \<and> rumble_expiration (fst (snd (SDL_RumbleJoystick example_constants 0 1200 1200
        (fst (snd (SDL_RumbleJoystick example_constants 0 1000 1000
           example_joystick 1000 1000 500))) 1000 1000 500))) = 1700"
  by (simp add: SDL_RumbleJoystick_def example_joystick_def new_joystick_def
      example_constants_def rumble_expiration_at_def)


text \<open>
  Claim C6, as amended. On a valid handle, a call of \<open>SDL_RumbleJoystick\<close> with
  magnitudes that differ from the active ones issues the driver command and returns its
  result. If the driver succeeds, the magnitudes are recorded and, for magnitudes not
  both zero and a nonzero duration, the expiration is the tick count plus
  \<open>min(duration, max duration)\<close>, never 0, and the resend is due one interval after
  the call; for a zero duration or both magnitudes zero both timers are cleared. If the
  driver fails, the magnitudes and the expiration stay as they were. A call with the
  active magnitudes and a zero duration or both magnitudes zero issues no command and
  clears both timers.
\<close>

theorem rumble_change:
  assumes "magic joystick"
  shows "(low \<noteq> low_frequency_rumble joystick \<or> high \<noteq> high_frequency_rumble joystick \<longrightarrow>
          (\<exists>joystick'.
             SDL_RumbleJoystick c driver_result ticks1 ticks2 joystick low high duration_ms
               = (driver_result, joystick', [Rumble low high])
             \<and> (driver_result = 0 \<longrightarrow>
                  low_frequency_rumble joystick' = low \<and> high_frequency_rumble joystick' = high
                  \<and> (if (low \<noteq> 0 \<or> high \<noteq> 0) \<and> duration_ms \<noteq> 0
                      then rumble_expiration joystick' = rumble_expiration_at c ticks2 duration_ms
                           \<and> rumble_expiration joystick' \<noteq> 0
                           \<and> rumble_resend joystick' = ticks1 + SDL_RUMBLE_RESEND_MS c
                      else rumble_expiration joystick' = 0 \<and> rumble_resend joystick' = 0))
             \<and> (driver_result \<noteq> 0 \<longrightarrow>
                  low_frequency_rumble joystick' = low_frequency_rumble joystick
                  \<and> high_frequency_rumble joystick' = high_frequency_rumble joystick
                  \<and> rumble_expiration joystick' = rumble_expiration joystick)))
       \<and> (low = low_frequency_rumble joystick \<and> high = high_frequency_rumble joystick
            \<and> (duration_ms = 0 \<or> (low = 0 \<and> high = 0)) \<longrightarrow>
          SDL_RumbleJoystick c driver_result ticks1 ticks2 joystick low high duration_ms
            = (0, joystick\<lparr>rumble_expiration := 0, rumble_resend := 0\<rparr>, []))"
proof (intro conjI impI)
  assume d: "low \<noteq> low_frequency_rumble joystick \<or> high \<noteq> high_frequency_rumble joystick"
  show "\<exists>joystick'.
             SDL_RumbleJoystick c driver_result ticks1 ticks2 joystick low high duration_ms
               = (driver_result, joystick', [Rumble low high])
             \<and> (driver_result = 0 \<longrightarrow>
                  low_frequency_rumble joystick' = low \<and> high_frequency_rumble joystick' = high
                  \<and> (if (low \<noteq> 0 \<or> high \<noteq> 0) \<and> duration_ms \<noteq> 0
                      then rumble_expiration joystick' = rumble_expiration_at c ticks2 duration_ms
                           \<and> rumble_expiration joystick' \<noteq> 0
                           \<and> rumble_resend joystick' = ticks1 + SDL_RUMBLE_RESEND_MS c
                      else rumble_expiration joystick' = 0 \<and> rumble_resend joystick' = 0))
             \<and> (driver_result \<noteq> 0 \<longrightarrow>
                  low_frequency_rumble joystick' = low_frequency_rumble joystick
                  \<and> high_frequency_rumble joystick' = high_frequency_rumble joystick
                  \<and> rumble_expiration joystick' = rumble_expiration joystick)"
  proof (cases "driver_result = 0")
    case False
    show ?thesis
      using False rumble_changed_failure [OF assms d False, of c ticks1 ticks2 duration_ms]
      by simp
  next
    case True
    show ?thesis
    proof (cases "(low \<noteq> 0 \<or> high \<noteq> 0) \<and> duration_ms \<noteq> 0")
      case active: True
      then have a: "low \<noteq> 0 \<or> high \<noteq> 0" "duration_ms \<noteq> 0" by blast+
      show ?thesis
        using True active rumble_changed_active [OF assms d a, of c ticks1 ticks2]
          rumble_expiration_at_nonzero [of c ticks2 duration_ms]
        by simp
    next
      case stop: False
      then have s: "duration_ms = 0 \<or> (low = 0 \<and> high = 0)" by blast
      show ?thesis
        using True stop rumble_changed_stop [OF assms d s, of c ticks1 ticks2]
        by simp
    qed
  qed
next
  assume "low = low_frequency_rumble joystick \<and> high = high_frequency_rumble joystick
            \<and> (duration_ms = 0 \<or> (low = 0 \<and> high = 0))"
  then show "SDL_RumbleJoystick c driver_result ticks1 ticks2 joystick low high duration_ms
            = (0, joystick\<lparr>rumble_expiration := 0, rumble_resend := 0\<rparr>, [])"
    using rumble_same_stop [OF assms, of low high duration_ms c driver_result ticks1 ticks2]
    by blast
qed

text \<open>A change from rest to (1000, 1000) for 500 ms at tick 1000, accepted by the driver.\<close>

theorem rumble_change_witness:
  "magic example_joystick
   \<and> (1000 :: Uint16) \<noteq> low_frequency_rumble example_joystick
   \<and> SDL_RumbleJoystick example_constants 0 1000 1000 example_joystick 1000 1000 500
      = (0, example_joystick\<lparr>rumble_resend := 3000, low_frequency_rumble := 1000,
            high_frequency_rumble := 1000, rumble_expiration := 1500\<rparr>, [Rumble 1000 1000])
   \<and> rumble_expiration_at example_constants 1000 500 = 1500
   \<and> (1000 :: Uint64) + SDL_RUMBLE_RESEND_MS example_constants = 3000"
proof -
  have m: "magic example_joystick"
    by (simp add: example_joystick_def new_joystick_def)
  have a: "SDL_RumbleJoystick example_constants 0 1000 1000 example_joystick 1000 1000 500
      = (0, example_joystick\<lparr>rumble_resend := 3000, low_frequency_rumble := 1000,
            high_frequency_rumble := 1000, rumble_expiration := 1500\<rparr>, [Rumble 1000 1000])"
    by (simp add: SDL_RumbleJoystick_def example_joystick_def new_joystick_def
        example_constants_def rumble_expiration_at_def)
  have d: "(1000 :: Uint16) \<noteq> low_frequency_rumble example_joystick
           \<or> (1000 :: Uint16) \<noteq> high_frequency_rumble example_joystick"
    by (simp add: example_joystick_def new_joystick_def)
  from rumble_change [OF m, of 1000 1000 example_constants 0 1000 1000 500] d
  obtain joystick' where
    j: "SDL_RumbleJoystick example_constants 0 1000 1000 example_joystick 1000 1000 500
          = (0, joystick', [Rumble 1000 1000])"
    and t: "rumble_expiration joystick' = rumble_expiration_at example_constants 1000 500"
           "rumble_resend joystick' = 1000 + SDL_RUMBLE_RESEND_MS example_constants"
    by auto
  from j a have "joystick' = example_joystick\<lparr>rumble_resend := 3000, low_frequency_rumble := 1000,
            high_frequency_rumble := 1000, rumble_expiration := 1500\<rparr>"
    by simp
  with t have "rumble_expiration_at example_constants 1000 500 = 1500"
    "(1000 :: Uint64) + SDL_RUMBLE_RESEND_MS example_constants = 3000"
    by simp_all
  moreover have "(1000 :: Uint16) \<noteq> low_frequency_rumble example_joystick"
    by (simp add: example_joystick_def new_joystick_def)
  ultimately show ?thesis using m a by blast
qed

text \<open>
  Claim C6 as stated fails on a handle that rumbles at (1000, 1000) with expiration 5000
  and resend 2500: a call with zero magnitudes and zero duration at tick 1000 that the
  driver rejects clears neither timer, and the resend is moved to 3000.
\<close>

theorem rumble_change_counterexample:
  "SDL_RumbleJoystick example_constants (-1) 1000 1000 rumbling_joystick 0 0 0
     = (-1, rumbling_joystick\<lparr>rumble_resend := 3000\<rparr>, [Rumble 0 0])
   \<and> rumble_expiration (rumbling_joystick\<lparr>rumble_resend := 3000\<rparr>) = 5000
   \<and> rumble_resend (rumbling_joystick\<lparr>rumble_resend := 3000\<rparr>) = 3000"
  by (simp add: SDL_RumbleJoystick_def rumbling_joystick_def example_joystick_def
      new_joystick_def example_constants_def)


section \<open>Verification: GUID\<close>

lemma le16_inverse: "push_bit 8 (ucast (ucast (drop_bit 8 w) :: Uint8)) OR ucast (ucast w :: Uint8) = (w :: Uint16)"
  by (rule bit_word_eqI) (auto simp: bit_simps)

lemma guid16_0: "guid16 (le16 w @ rest) 0 = w"
  by (simp add: guid16_def le16_def le16_inverse)

lemma guid16_1: "guid16 (le16 a @ le16 w @ rest) 1 = w"
  by (simp add: guid16_def le16_def le16_inverse)

lemma guid16_standard:
  "guid16 (le16 a @ le16 b @ le16 v @ [0, 0] @ le16 p @ [0, 0] @ le16 r @ rest) 2 = v"
  "guid16 (le16 a @ le16 b @ le16 v @ [0, 0] @ le16 p @ [0, 0] @ le16 r @ rest) 3 = 0"
  "guid16 (le16 a @ le16 b @ le16 v @ [0, 0] @ le16 p @ [0, 0] @ le16 r @ rest) 4 = p"
  "guid16 (le16 a @ le16 b @ le16 v @ [0, 0] @ le16 p @ [0, 0] @ le16 r @ rest) 5 = 0"
  "guid16 (le16 a @ le16 b @ le16 v @ [0, 0] @ le16 p @ [0, 0] @ le16 r @ rest) 6 = r"
  by (simp_all add: guid16_def le16_def le16_inverse)

lemma length_strlcpy: "0 < maxlen \<Longrightarrow> length (SDL_strlcpy src maxlen) = maxlen"
  by (auto simp: SDL_strlcpy_def Let_def)

lemma length_CreateJoystickGUID:
  "length (SDL_CreateJoystickGUID crc16 bus vendor product version name sig d) = 16"
  by (simp add: SDL_CreateJoystickGUID_def Let_def le16_def length_strlcpy)

lemma strlcpy_keeps:
  assumes "0 < maxlen" "n = min (length src) (maxlen - 1)"
  shows "take n (SDL_strlcpy src maxlen) = take n src \<and> SDL_strlcpy src maxlen ! n = 0"
  using assms
  by (auto simp: SDL_strlcpy_def Let_def nth_append min_def)

text \<open>
  Claim C7, as amended. For a vendor and a product that are both non-zero and a bus type
  below \<open>0x20\<close> or equal to the virtual bus, decoding the GUID the encoder produces
  returns the vendor, product, version and the CRC16 of the name. When the vendor or the
  product is zero (the pair (0, 0) included), the GUID holds the name from byte 4 on, up
  to the available space (11 bytes, 9 with a driver signature), followed by a NUL, and
  for the same bus types the decoded CRC16 is the CRC16 of the name.
\<close>

theorem guid_round_trip:
  "(vendor \<noteq> 0 \<and> product \<noteq> 0 \<and> (bus < 0x20 \<or> bus = SDL_HARDWARE_BUS_VIRTUAL c) \<longrightarrow>
      SDL_GetJoystickGUIDInfo c
        (SDL_CreateJoystickGUID crc16 bus vendor product version name driver_signature driver_data)
      = (vendor, product, version, crc16 (name_bytes name)))
   \<and> (vendor = 0 \<or> product = 0 \<longrightarrow>
        (let data = SDL_CreateJoystickGUID crc16 bus vendor product version name
                      driver_signature driver_data;
             n = min (length (name_bytes name)) (name_space driver_signature)
         in take n (drop 4 data) = take n (name_bytes name) \<and> data ! (4 + n) = 0
            \<and> (bus < 0x20 \<or> bus = SDL_HARDWARE_BUS_VIRTUAL c \<longrightarrow>
                 snd (snd (snd (SDL_GetJoystickGUIDInfo c data))) = crc16 (name_bytes name))))"
proof (intro conjI impI)
  assume a: "vendor \<noteq> 0 \<and> product \<noteq> 0 \<and> (bus < 0x20 \<or> bus = SDL_HARDWARE_BUS_VIRTUAL c)"
  then have g: "SDL_CreateJoystickGUID crc16 bus vendor product version name driver_signature driver_data
     = le16 bus @ le16 (crc16 (name_bytes name)) @ le16 vendor @ [0, 0] @ le16 product @ [0, 0]
         @ le16 version @ [driver_signature, driver_data]"
    by (simp add: SDL_CreateJoystickGUID_def Let_def)
  show "SDL_GetJoystickGUIDInfo c
        (SDL_CreateJoystickGUID crc16 bus vendor product version name driver_signature driver_data)
      = (vendor, product, version, crc16 (name_bytes name))"
    unfolding g SDL_GetJoystickGUIDInfo_def Let_def
    using a by (simp only: guid16_0 guid16_1 guid16_standard simp_thms if_True)
next
  assume z: "vendor = 0 \<or> product = 0"
  define space where "space = (if driver_signature \<noteq> 0 then 16 - 4 - 2 else 16 - 4 :: nat)"
  define tail where "tail = (if driver_signature \<noteq> 0 then [driver_signature, driver_data] else [])"
  have g: "SDL_CreateJoystickGUID crc16 bus vendor product version name driver_signature driver_data
     = le16 bus @ le16 (crc16 (name_bytes name)) @ SDL_strlcpy (name_bytes name) space @ tail"
    using z by (auto simp: SDL_CreateJoystickGUID_def Let_def space_def tail_def)
  have sp: "0 < space" "name_space driver_signature = space - 1"
    by (simp_all add: space_def name_space_def)
  define n where "n = min (length (name_bytes name)) (name_space driver_signature)"
  have k: "take n (SDL_strlcpy (name_bytes name) space) = take n (name_bytes name)"
          "SDL_strlcpy (name_bytes name) space ! n = 0"
    using strlcpy_keeps [OF sp(1), of n "name_bytes name"] by (simp_all add: n_def sp(2))
  have nlt: "n < space" using sp by (simp add: n_def)
  have d4: "drop 4 (le16 bus @ le16 (crc16 (name_bytes name)) @ SDL_strlcpy (name_bytes name) space @ tail)
            = SDL_strlcpy (name_bytes name) space @ tail"
    by (simp add: le16_def)
  have t: "take n (SDL_strlcpy (name_bytes name) space @ tail) = take n (name_bytes name)"
    using k(1) nlt sp(1) by (simp add: length_strlcpy)
  have e: "(le16 bus @ le16 (crc16 (name_bytes name)) @ SDL_strlcpy (name_bytes name) space @ tail) ! (4 + n) = 0"
    using k(2) nlt sp(1) by (simp add: le16_def nth_append length_strlcpy)
  have crc: "bus < 0x20 \<or> bus = SDL_HARDWARE_BUS_VIRTUAL c \<Longrightarrow>
     snd (snd (snd (SDL_GetJoystickGUIDInfo c
        (le16 bus @ le16 (crc16 (name_bytes name)) @ SDL_strlcpy (name_bytes name) space @ tail))))
       = crc16 (name_bytes name)"
    unfolding SDL_GetJoystickGUIDInfo_def Let_def
    by (simp only: guid16_0 guid16_1 snd_conv if_True if_False simp_thms split: if_split)
  show "let data = SDL_CreateJoystickGUID crc16 bus vendor product version name
                      driver_signature driver_data;
             n = min (length (name_bytes name)) (name_space driver_signature)
         in take n (drop 4 data) = take n (name_bytes name) \<and> data ! (4 + n) = 0
            \<and> (bus < 0x20 \<or> bus = SDL_HARDWARE_BUS_VIRTUAL c \<longrightarrow>
                 snd (snd (snd (SDL_GetJoystickGUIDInfo c data))) = crc16 (name_bytes name))"
    unfolding Let_def g n_def [symmetric]
    using d4 t e crc by simp
qed

text \<open>
  An Xbox 360 pad on USB with the HIDAPI signature; and the name \<open>"Controller"\<close> alone.
\<close>

theorem guid_round_trip_witness:
  "(0x045E :: Uint16) \<noteq> 0 \<and> (0x028E :: Uint16) \<noteq> 0 \<and> (3 :: Uint16) < 0x20
   \<and> SDL_GetJoystickGUIDInfo example_constants
        (SDL_CreateJoystickGUID example_crc16 3 0x045E 0x028E 0x0114 (Some controller_name) 0x68 0)
      = (0x045E, 0x028E, 0x0114, 0x120A)
   \<and> take 10 (drop 4 (SDL_CreateJoystickGUID example_crc16 3 0 0 0 (Some controller_name) 0 0))
      = controller_name
   \<and> SDL_CreateJoystickGUID example_crc16 3 0 0 0 (Some controller_name) 0 0 ! 14 = 0
   \<and> snd (snd (snd (SDL_GetJoystickGUIDInfo example_constants
        (SDL_CreateJoystickGUID example_crc16 3 0 0 0 (Some controller_name) 0 0)))) = 0x120A"
proof -
  have nb: "name_bytes (Some controller_name) = controller_name"
    by (simp add: name_bytes_def c_str_def controller_name_def)
  have crc: "example_crc16 controller_name = 0x120A"
    by (simp add: example_crc16_def controller_name_def)
  have h: "(0x045E :: Uint16) \<noteq> 0" "(0x028E :: Uint16) \<noteq> 0" "(3 :: Uint16) < 0x20"
    by simp_all
  have n: "min (length controller_name) (name_space 0) = 10"
    by (simp add: controller_name_def name_space_def)
  have t10: "take 10 controller_name = controller_name"
    by (simp add: controller_name_def)
  note a = guid_round_trip [of "0x045E" "0x028E" 3 example_constants example_crc16 "0x0114"
      "Some controller_name" "0x68" 0]
  note b = guid_round_trip [of 0 0 3 example_constants example_crc16 0 "Some controller_name" 0 0]
  from a h have one: "SDL_GetJoystickGUIDInfo example_constants
        (SDL_CreateJoystickGUID example_crc16 3 0x045E 0x028E 0x0114 (Some controller_name) 0x68 0)
      = (0x045E, 0x028E, 0x0114, 0x120A)"
    by (simp add: nb crc)
  from b h(3) have two:
    "take 10 (drop 4 (SDL_CreateJoystickGUID example_crc16 3 0 0 0 (Some controller_name) 0 0))
      = controller_name"
    "SDL_CreateJoystickGUID example_crc16 3 0 0 0 (Some controller_name) 0 0 ! 14 = 0"
    "snd (snd (snd (SDL_GetJoystickGUIDInfo example_constants
        (SDL_CreateJoystickGUID example_crc16 3 0 0 0 (Some controller_name) 0 0)))) = 0x120A"
    by (simp_all add: Let_def nb crc n t10)
  from h one two show ?thesis by blast
qed

text \<open>
  Claim C7 as stated fails for vendor \<open>0x045E\<close> with product 0, a pair different from
  (0, 0): the encoder takes the form without vendor and product, and the decoder returns
  vendor 0. It also fails for a bus type such as \<open>0x100\<close>, for which the decoder returns
  zeros throughout.
\<close>

theorem guid_round_trip_counterexample:
  "SDL_GetJoystickGUIDInfo example_constants
     (SDL_CreateJoystickGUID example_crc16 3 0x045E 0 1 (Some controller_name) 0 0)
     = (0, 0, 0, 0x120A)
   \<and> SDL_GetJoystickGUIDInfo example_constants
     (SDL_CreateJoystickGUID example_crc16 0x100 0x045E 0x028E 1 (Some controller_name) 0 0)
     = (0, 0, 0, 0)"
  by (simp add: SDL_GetJoystickGUIDInfo_def SDL_CreateJoystickGUID_def example_constants_def
      example_crc16_def controller_name_def name_bytes_def c_str_def le16_def guid16_def SDL_strlcpy_def Let_def)

section \<open>Verification: axis events\<close>

lemma set_axis_nth: "a < length (axes joystick) \<Longrightarrow> axes (set_axis joystick a info) ! a = info"
  by (simp add: set_axis_def)

lemma set_axis_length: "length (axes (set_axis joystick a info)) = length (axes joystick)"
  by (simp add: set_axis_def)

lemma set_axis_other: "guid (set_axis joystick a info) = guid joystick"
  "instance_id (set_axis joystick a info) = instance_id joystick"
  by (simp_all add: set_axis_def)

lemma int_le_uint: "(int n \<le> uint (w :: Uint8)) = (n \<le> unat w)"
proof -
  have "uint w = int (unat w)" by simp
  then show ?thesis by (simp only: of_nat_le_iff)
qed

lemma axis_jitter_first:
  assumes "unat axis < length (axes joystick)"
    and "\<not> has_initial_value (axes joystick ! unat axis)"
    and "\<not> sent_initial_value (axes joystick ! unat axis)"
    and "\<not> SDL_IsJoystickVIRTUAL (guid joystick)"
  shows "SDL_SendJoystickAxis env timestamp joystick axis v
         = (0, set_axis joystick (unat axis)
                 ((axes joystick ! unat axis)\<lparr>initial_value := v, axis_value := v, axis_zero := v,
                      has_initial_value := True\<rparr>), [])"
  using assms
  by (subst SDL_SendJoystickAxis.simps)
     (simp add: naxes_def int_le_uint axis_initial_value_def SDL_JOYSTICK_AXIS_MAX_def Let_def)

lemma axis_jitter_within:
  assumes "unat axis < length (axes joystick)"
    and "has_initial_value (axes joystick ! unat axis)"
    and "\<not> sent_initial_value (axes joystick ! unat axis)"
    and "sint (initial_value (axes joystick ! unat axis)) \<noteq> 32767"
    and "\<not> sint (initial_value (axes joystick ! unat axis)) \<le> -32767"
    and "v \<noteq> axis_value (axes joystick ! unat axis)"
    and "\<bar>sint v - sint (axis_value (axes joystick ! unat axis))\<bar> \<le> 409"
    and "\<not> SDL_IsJoystickVIRTUAL (guid joystick)"
  shows "SDL_SendJoystickAxis env timestamp joystick axis v
         = (0, set_axis joystick (unat axis)
                 ((axes joystick ! unat axis)\<lparr>has_second_value := True\<rparr>), [])"
  using assms
  by (subst SDL_SendJoystickAxis.simps)
     (simp add: naxes_def int_le_uint axis_initial_value_def SDL_JOYSTICK_AXIS_MAX_def Let_def)

lemma axis_send_delivers:
  assumes "\<not> SDL_PrivateJoystickShouldIgnoreEvent env"
    and "SDL_EventEnabled env SDL_EVENT_JOYSTICK_AXIS_MOTION"
  shows "axis_send env timestamp joystick axis v events
         = (if SDL_PushEvent env (jaxis timestamp (instance_id joystick) axis v) = 1 then 1 else 0,
            (set_axis joystick (unat axis) ((axes joystick ! unat axis)\<lparr>axis_value := v\<rparr>))
               \<lparr>update_complete := timestamp\<rparr>,
            events @ [jaxis timestamp (instance_id joystick) axis v])"
  using assms by (simp add: axis_send_def post_event_def Let_def)

lemma axis_initial_sending:
  assumes "unat axis < length (axes joystick)"
    and "has_initial_value (axes joystick ! unat axis)"
    and "has_second_value (axes joystick ! unat axis)"
    and "sent_initial_value (axes joystick ! unat axis)"
    and "sending_initial_value (axes joystick ! unat axis)"
    and "\<not> SDL_PrivateJoystickShouldIgnoreEvent env"
    and "SDL_EventEnabled env SDL_EVENT_JOYSTICK_AXIS_MOTION"
  shows "SDL_SendJoystickAxis env timestamp joystick axis v
         = (if SDL_PushEvent env (jaxis timestamp (instance_id joystick) axis v) = 1 then 1 else 0,
            (set_axis joystick (unat axis) ((axes joystick ! unat axis)\<lparr>axis_value := v\<rparr>))
               \<lparr>update_complete := timestamp\<rparr>,
            [jaxis timestamp (instance_id joystick) axis v])"
proof -
  have i: "axis_initial_value (axes joystick ! unat axis) v = Some (axes joystick ! unat axis)"
    using assms(2-5) by (simp add: axis_initial_value_def)
  have k: "set_axis joystick (unat axis) (axes joystick ! unat axis) = joystick"
    by (simp add: set_axis_def)
  show ?thesis
    using assms(1,4)
    by (subst SDL_SendJoystickAxis.simps)
       (simp add: naxes_def int_le_uint i k axis_send_delivers [OF assms(6,7)])
qed


lemma axis_jitter_beyond:
  assumes "unat axis < length (axes joystick)"
    and "has_initial_value (axes joystick ! unat axis)"
    and "\<not> sent_initial_value (axes joystick ! unat axis)"
    and "sint (initial_value (axes joystick ! unat axis)) \<noteq> 32767"
    and "\<not> sint (initial_value (axes joystick ! unat axis)) \<le> -32767"
    and "v \<noteq> axis_value (axes joystick ! unat axis)"
    and "\<not> \<bar>sint v - sint (axis_value (axes joystick ! unat axis))\<bar> \<le> 409"
    and "\<not> SDL_PrivateJoystickShouldIgnoreEvent env"
    and "SDL_EventEnabled env SDL_EVENT_JOYSTICK_AXIS_MOTION"
  shows "SDL_SendJoystickAxis env timestamp joystick axis v
         = (if SDL_PushEvent env (jaxis timestamp (instance_id joystick) axis v) = 1 then 1 else 0,
            (set_axis joystick (unat axis)
               ((axes joystick ! unat axis)\<lparr>has_second_value := True, sent_initial_value := True,
                   sending_initial_value := False, axis_value := v\<rparr>))
               \<lparr>update_complete := timestamp\<rparr>,
            [jaxis timestamp (instance_id joystick) axis
               (initial_value (axes joystick ! unat axis)),
             jaxis timestamp (instance_id joystick) axis v])"
proof -
  define info where "info = axes joystick ! unat axis"
  define info1 where "info1 = info\<lparr>has_second_value := True, sent_initial_value := True,
                                   sending_initial_value := True\<rparr>"
  define joystick1 where "joystick1 = set_axis joystick (unat axis) info1"
  have i: "axis_initial_value info v = Some (info\<lparr>has_second_value := True\<rparr>)"
    using assms(2,4,5,6) by (simp add: axis_initial_value_def info_def)
  have n1: "axes joystick1 ! unat axis = info1"
    using assms(1) by (simp add: joystick1_def set_axis_nth)
  have l1: "unat axis < length (axes joystick1)"
    using assms(1) by (simp add: joystick1_def set_axis_length)
  have inner: "SDL_SendJoystickAxis env timestamp joystick1 axis (initial_value info)
         = (if SDL_PushEvent env (jaxis timestamp (instance_id joystick) axis (initial_value info)) = 1
            then 1 else 0,
            (set_axis joystick1 (unat axis) (info1\<lparr>axis_value := initial_value info\<rparr>))
               \<lparr>update_complete := timestamp\<rparr>,
            [jaxis timestamp (instance_id joystick) axis (initial_value info)])"
  proof -
    have p: "has_initial_value (axes joystick1 ! unat axis)"
      "has_second_value (axes joystick1 ! unat axis)"
      "sent_initial_value (axes joystick1 ! unat axis)"
      "sending_initial_value (axes joystick1 ! unat axis)"
      using assms(2) by (simp_all add: n1 info1_def info_def)
    have id: "instance_id joystick1 = instance_id joystick"
      by (simp add: joystick1_def set_axis_other)
    show ?thesis
      using axis_initial_sending [OF l1 p assms(8,9), of timestamp "initial_value info"]
      by (simp only: n1 id)
  qed
  show ?thesis
    using assms(1,3,7)
    apply (subst SDL_SendJoystickAxis.simps)
    apply (simp add: naxes_def int_le_uint info_def [symmetric] i SDL_JOYSTICK_AXIS_MAX_def
             info1_def [symmetric] joystick1_def [symmetric] inner Let_def
             axis_send_delivers [OF assms(8,9)])
    apply (simp add: set_axis_def joystick1_def info1_def)
    done
qed

text \<open>
  Claim C4, as amended. For an axis in range that has no initial value and has not sent
  one, on a device that is not virtual, while events are not ignored for lack of focus and
  axis-motion events are enabled: a first sample of 100 and then one of 90 return 0 and
  push no event; a following sample of 5000 pushes exactly two events, the synthesized
  initial value 100 (pushed by the recursive call) and then 5000, both with the timestamp
  of the third sample, and the axis holds 5000.
\<close>

theorem axis_jitter:
  assumes "unat axis < length (axes joystick)"
    and "\<not> has_initial_value (axes joystick ! unat axis)"
    and "\<not> sent_initial_value (axes joystick ! unat axis)"
    and "\<not> SDL_IsJoystickVIRTUAL (guid joystick)"
    and "\<not> SDL_PrivateJoystickShouldIgnoreEvent env"
    and "SDL_EventEnabled env SDL_EVENT_JOYSTICK_AXIS_MOTION"
    and "SDL_SendJoystickAxis env timestamp1 joystick axis 100 = (posted1, joystick1, events1)"
    and "SDL_SendJoystickAxis env timestamp2 joystick1 axis 90 = (posted2, joystick2, events2)"
    and "SDL_SendJoystickAxis env timestamp3 joystick2 axis 5000 = (posted3, joystick3, events3)"
  shows "posted1 = 0 \<and> events1 = [] \<and> posted2 = 0 \<and> events2 = []
       \<and> events3 = [jaxis timestamp3 (instance_id joystick) axis 100,
                     jaxis timestamp3 (instance_id joystick) axis 5000]
       \<and> axis_value (axes joystick3 ! unat axis) = 5000
       \<and> sent_initial_value (axes joystick3 ! unat axis)"
proof -
  define info where "info = axes joystick ! unat axis"
  define info1 where "info1 = info\<lparr>initial_value := 100, axis_value := 100, axis_zero := 100,
                                   has_initial_value := True\<rparr>"
  have one: "posted1 = 0" "events1 = []" "joystick1 = set_axis joystick (unat axis) info1"
    using assms(7) axis_jitter_first [OF assms(1-4), of env timestamp1 100]
    by (simp_all add: info1_def info_def)
  have l1: "unat axis < length (axes joystick1)"
    and n1: "axes joystick1 ! unat axis = info1"
    and g1: "\<not> SDL_IsJoystickVIRTUAL (guid joystick1)"
    and id1: "instance_id joystick1 = instance_id joystick"
    using assms(1,4) by (simp_all add: one(3) set_axis_length set_axis_nth set_axis_other)
  define info2 where "info2 = info1\<lparr>has_second_value := True\<rparr>"
  have two: "posted2 = 0" "events2 = []" "joystick2 = set_axis joystick1 (unat axis) info2"
    using assms(8) assms(3)
      axis_jitter_within [OF l1 _ _ _ _ _ _ g1, of 90 env timestamp2]
    by (simp_all add: n1 info1_def info2_def info_def)
  have l2: "unat axis < length (axes joystick2)"
    and n2: "axes joystick2 ! unat axis = info2"
    and id2: "instance_id joystick2 = instance_id joystick"
    using l1 id1 by (simp_all add: two(3) set_axis_length set_axis_nth set_axis_other)
  have three: "events3 = [jaxis timestamp3 (instance_id joystick) axis 100,
                     jaxis timestamp3 (instance_id joystick) axis 5000]"
    "joystick3 = (set_axis joystick2 (unat axis)
               (info2\<lparr>has_second_value := True, sent_initial_value := True,
                   sending_initial_value := False, axis_value := 5000\<rparr>))
               \<lparr>update_complete := timestamp3\<rparr>"
    using assms(9) assms(3)
      axis_jitter_beyond [OF l2 _ _ _ _ _ _ assms(5,6), of 5000 timestamp3]
    by (simp_all add: n2 id2 info2_def info1_def info_def)
  have f: "axis_value (axes joystick3 ! unat axis) = 5000"
    "sent_initial_value (axes joystick3 ! unat axis)"
    using l2 by (simp_all add: three(2) set_axis_def)
  show ?thesis using one(1,2) two(1,2) three(1) f by simp
qed

text \<open>The scenario on the example device, with no window open.\<close>

theorem axis_jitter_witness:
  "unat (0 :: Uint8) < length (axes example_joystick)
   \<and> \<not> has_initial_value (axes example_joystick ! unat (0 :: Uint8))
   \<and> \<not> sent_initial_value (axes example_joystick ! unat (0 :: Uint8))
   \<and> \<not> SDL_IsJoystickVIRTUAL (guid example_joystick)
   \<and> \<not> SDL_PrivateJoystickShouldIgnoreEvent example_env
   \<and> SDL_EventEnabled example_env SDL_EVENT_JOYSTICK_AXIS_MOTION
   \<and> snd (snd (SDL_SendJoystickAxis example_env 1 example_joystick 0 100)) = []
   \<and> snd (snd (SDL_SendJoystickAxis example_env 2
        (fst (snd (SDL_SendJoystickAxis example_env 1 example_joystick 0 100))) 0 90)) = []
   \<and> snd (snd (SDL_SendJoystickAxis example_env 3
        (fst (snd (SDL_SendJoystickAxis example_env 2
           (fst (snd (SDL_SendJoystickAxis example_env 1 example_joystick 0 100))) 0 90)))
        0 5000)) = [jaxis 3 7 0 100, jaxis 3 7 0 5000]"
proof -
  define r1 where "r1 = SDL_SendJoystickAxis example_env 1 example_joystick 0 100"
  define r2 where "r2 = SDL_SendJoystickAxis example_env 2 (fst (snd r1)) 0 90"
  define r3 where "r3 = SDL_SendJoystickAxis example_env 3 (fst (snd r2)) 0 5000"
  have e1: "SDL_SendJoystickAxis example_env 1 example_joystick 0 100
            = (fst r1, fst (snd r1), snd (snd r1))"
    and e2: "SDL_SendJoystickAxis example_env 2 (fst (snd r1)) 0 90
            = (fst r2, fst (snd r2), snd (snd r2))"
    and e3: "SDL_SendJoystickAxis example_env 3 (fst (snd r2)) 0 5000
            = (fst r3, fst (snd r3), snd (snd r3))"
    by (simp_all add: r1_def r2_def r3_def)
  have h: "unat (0 :: Uint8) < length (axes example_joystick)"
    "\<not> has_initial_value (axes example_joystick ! unat (0 :: Uint8))"
    "\<not> sent_initial_value (axes example_joystick ! unat (0 :: Uint8))"
    "\<not> SDL_IsJoystickVIRTUAL (guid example_joystick)"
    "\<not> SDL_PrivateJoystickShouldIgnoreEvent example_env"
    "SDL_EventEnabled example_env SDL_EVENT_JOYSTICK_AXIS_MOTION"
    by (simp_all add: example_joystick_def new_joystick_def zeroed_axis_def
        SDL_IsJoystickVIRTUAL_def SDL_PrivateJoystickShouldIgnoreEvent_def example_env_def
        all_enabled_def)
  have id: "instance_id example_joystick = 7"
    by (simp add: example_joystick_def new_joystick_def)
  from axis_jitter [OF h e1 e2 e3]
  have "snd (snd r1) = []" "snd (snd r2) = []"
    "snd (snd r3) = [jaxis 3 7 0 100, jaxis 3 7 0 5000]"
    by (simp_all add: id)
  with h show ?thesis
    unfolding r3_def r2_def r1_def by blast
qed

text \<open>
  Claim C4 as stated fails while the application has a window without the keyboard
  focus (and background events are not allowed): the sample of 5000 pushes no event.
\<close>

theorem axis_jitter_counterexample:
  "\<not> has_initial_value (axes example_joystick ! unat (0 :: Uint8))
   \<and> \<not> sent_initial_value (axes example_joystick ! unat (0 :: Uint8))
   \<and> \<not> SDL_IsJoystickVIRTUAL (guid example_joystick)
   \<and> snd (snd (SDL_SendJoystickAxis unfocused_env 3
        (fst (snd (SDL_SendJoystickAxis unfocused_env 2
           (fst (snd (SDL_SendJoystickAxis unfocused_env 1 example_joystick 0 100))) 0 90)))
        0 5000)) = []"
  by (simp add: SDL_SendJoystickAxis.simps example_joystick_def new_joystick_def zeroed_axis_def
      unfocused_env_def naxes_def axis_initial_value_def set_axis_def SDL_JOYSTICK_AXIS_MAX_def
      SDL_IsJoystickVIRTUAL_def axis_send_def post_event_def
      SDL_PrivateJoystickShouldIgnoreEvent_def Let_def)

section \<open>The registry: one handle per instance id\<close>

text \<open>The state-change entry points keep the identity of the struct they work on.\<close>

lemma axes_changed_refl: "axes_changed joystick a joystick"
  unfolding axes_changed_def
  by (rule exI [of _ "axes joystick ! a"], rule exI [of _ "update_complete joystick"]) simp

lemma axes_changed_trans:
  assumes "axes_changed j1 a j2" and "axes_changed j2 a j3"
  shows "axes_changed j1 a j3"
proof -
  from assms(1) obtain info uc where
    a: "j2 = j1\<lparr>axes := (axes j1)[a := info], update_complete := uc\<rparr>"
    unfolding axes_changed_def by blast
  from assms(2) obtain info' uc' where
    b: "j3 = j2\<lparr>axes := (axes j2)[a := info'], update_complete := uc'\<rparr>"
    unfolding axes_changed_def by blast
  have "j3 = j1\<lparr>axes := (axes j1)[a := info'], update_complete := uc'\<rparr>"
    by (simp add: a b)
  then show ?thesis unfolding axes_changed_def by blast
qed

lemma axes_changed_set_axis: "axes_changed joystick a (set_axis joystick a info)"
  unfolding axes_changed_def set_axis_def
  by (rule exI [of _ info], rule exI [of _ "update_complete joystick"]) simp

lemma axes_changed_update_complete:
  assumes "axes_changed joystick a joystick'"
  shows "axes_changed joystick a (joystick'\<lparr>update_complete := t\<rparr>)"
proof -
  from assms obtain info uc where
    a: "joystick' = joystick\<lparr>axes := (axes joystick)[a := info], update_complete := uc\<rparr>"
    unfolding axes_changed_def by blast
  have "joystick'\<lparr>update_complete := t\<rparr>
        = joystick\<lparr>axes := (axes joystick)[a := info], update_complete := t\<rparr>"
    by (simp add: a)
  then show ?thesis unfolding axes_changed_def by blast
qed

lemma axis_send_changed:
  "axes_changed joystick (unat axis) (fst (snd (axis_send env timestamp joystick axis v events)))"
  unfolding axis_send_def Let_def
  by (auto simp: split_def intro: axes_changed_refl axes_changed_update_complete axes_changed_set_axis)

lemma SDL_SendJoystickAxis_changed:
  "axes_changed joystick (unat axis) (fst (snd (SDL_SendJoystickAxis env timestamp joystick axis v)))"
proof (induction env timestamp joystick axis v rule: SDL_SendJoystickAxis.induct)
  case (1 env timestamp joystick axis v)
  show ?case
  proof (cases "int (unat axis) \<ge> naxes joystick")
    case True
    then show ?thesis
      by (subst SDL_SendJoystickAxis.simps) (simp add: axes_changed_refl)
  next
    case inrange: False
    show ?thesis
    proof (cases "axis_initial_value (axes joystick ! unat axis) v")
      case None
      then show ?thesis using inrange
        by (subst SDL_SendJoystickAxis.simps) (simp add: axes_changed_refl)
    next
      case (Some info)
      show ?thesis
      proof (cases "sent_initial_value info")
        case True
        then show ?thesis using inrange Some
          by (subst SDL_SendJoystickAxis.simps)
             (auto intro: axes_changed_trans [OF axes_changed_set_axis axis_send_changed])
      next
        case nsent: False
        show ?thesis
        proof (cases "\<bar>sint v - sint (axis_value info)\<bar> \<le> SDL_JOYSTICK_AXIS_MAX div 80
                 \<and> \<not> SDL_IsJoystickVIRTUAL (guid joystick)")
          case True
          then show ?thesis using inrange Some nsent
            by (subst SDL_SendJoystickAxis.simps) (auto simp: Let_def intro: axes_changed_set_axis)
        next
          case False
          define joystick1 where "joystick1 = set_axis joystick (unat axis)
                                  (info\<lparr>sent_initial_value := True, sending_initial_value := True\<rparr>)"
          define r where "r = SDL_SendJoystickAxis env timestamp joystick1 axis (initial_value info)"
          define joystick3 where "joystick3 = set_axis (fst (snd r)) (unat axis)
                    ((axes (fst (snd r)) ! unat axis)\<lparr>sending_initial_value := False\<rparr>)"
          have ih: "axes_changed joystick1 (unat axis) (fst (snd r))"
            unfolding r_def joystick1_def
            using "1.IH" [OF inrange Some nsent refl] False by (auto simp: Let_def)
          have c3: "axes_changed joystick (unat axis) joystick3"
            unfolding joystick3_def
            by (rule axes_changed_trans [OF _ axes_changed_set_axis],
                rule axes_changed_trans [OF _ ih]) (simp add: joystick1_def axes_changed_set_axis)
          have res: "SDL_SendJoystickAxis env timestamp joystick axis v
                 = axis_send env timestamp joystick3 axis v (snd (snd r))"
            using inrange Some nsent False
            by (subst SDL_SendJoystickAxis.simps)
               (auto simp: Let_def split_def joystick3_def r_def joystick1_def)
          show ?thesis
            unfolding res by (rule axes_changed_trans [OF c3 axis_send_changed])
        qed
      qed
    qed
  qed
qed




lemma find_Some_set: "find P xs = Some x \<Longrightarrow> x \<in> set xs \<and> P x"
  by (induction xs) (auto split: if_splits)





lemma find_store:
  assumes "\<forall>x \<in> set js. handle x = handle j \<longrightarrow> x = j"
    and "instance_id j1 = instance_id j"
  shows "find (\<lambda>x. iid = instance_id x) (map (store j j1) js)
         = map_option (store j j1) (find (\<lambda>x. iid = instance_id x) js)"
  using assms by (induction js) (auto simp: store_def)


lemma unlink_filter: "distinct (map handle js) \<Longrightarrow> unlink h js = filter (\<lambda>x. handle x \<noteq> h) js"
proof (induction js)
  case Nil
  then show ?case by simp
next
  case (Cons j js)
  show ?case
  proof (cases "handle j = h")
    case True
    with Cons.prems have "h \<notin> handle ` set js" by auto
    then have "filter (\<lambda>x. handle x \<noteq> h) js = js" by (auto intro: filter_True)
    with True show ?thesis by simp
  next
    case False
    with Cons show ?thesis by simp
  qed
qed

lemma find_filter: "find P (filter Q xs) = find (\<lambda>x. Q x \<and> P x) xs"
  by (induction xs) auto





lemma new_joystick_identity: "identity (new_joystick h iid t) = (h, True, iid, 0)"
  by (simp add: identity_def new_joystick_def)







lemma set_unlink:
  "distinct (map handle js) \<Longrightarrow> set (unlink h js) = {x \<in> set js. handle x \<noteq> h}"
  by (simp add: unlink_filter)















text \<open>
  At the end of the C \<open>int\<close> the increment wraps: an open of a listed device whose handle
  has \<open>2\<^sup>3\<^sup>1 - 1\<close> references leaves the reference count negative.
\<close>

lemma find_store_first:
  assumes "find (\<lambda>x. iid = instance_id x) js = Some j"
    and "instance_id j1 = instance_id j"
  shows "find (\<lambda>x. iid = instance_id x) (map (store j j1) js) = Some j1"
  using assms(1)
proof (induction js)
  case Nil
  then show ?case by simp
next
  case (Cons x js)
  have i: "iid = instance_id j" using find_Some_set [OF assms(1)] by simp
  show ?case
  proof (cases "iid = instance_id x")
    case True
    then have "x = j" using Cons.prems by simp
    then show ?thesis using i assms(2) by (simp add: store_def)
  next
    case False
    then have "find (\<lambda>x. iid = instance_id x) js = Some j" using Cons.prems by simp
    from Cons.IH [OF this] False i assms(2) show ?thesis by (simp add: store_def)
  qed
qed

lemma reopen_at_int_max:
  assumes "SDL_GetDriverAndJoystickIndex drivers iid \<noteq> None"
    and "registered iid st = Some joystick"
    and "ref_count joystick = 2147483647"
  shows "ref_count_of iid (snd (SDL_OpenJoystick c env drivers orc iid st)) = - 2147483648"
proof -
  obtain di where res: "SDL_GetDriverAndJoystickIndex drivers iid = Some di"
    using assms(1) by auto
  obtain driver device_index where d: "di = (driver, device_index)" by (cases di) auto
  define joystick1 where "joystick1 = joystick\<lparr>ref_count := ref_count joystick + 1\<rparr>"
  have f: "find (\<lambda>x. iid = instance_id x) (SDL_joysticks st) = Some joystick"
    using assms(2) by (simp add: registered_def)
  have "snd (SDL_OpenJoystick c env drivers orc iid st)
        = st\<lparr>SDL_joysticks := map (store joystick joystick1) (SDL_joysticks st)\<rparr>"
    using res d f by (simp add: SDL_OpenJoystick_def joystick1_def)
  moreover have "find (\<lambda>x. iid = instance_id x) (map (store joystick joystick1) (SDL_joysticks st))
                 = Some joystick1"
    by (rule find_store_first [OF f]) (simp add: joystick1_def)
  moreover have "sint (ref_count joystick1) = - 2147483648"
    by (simp add: joystick1_def assms(3))
  ultimately show ?thesis by (simp add: ref_count_of_def registered_def)
qed




section \<open>Verification: hot-plug removal\<close>














lemma pressed_notifications:
  "notifications pressed_state = [PushEvent (jaxis 1 7 0 100), PushEvent (jaxis 1 7 0 5000),
    PushEvent (jbutton SDL_EVENT_JOYSTICK_BUTTON_DOWN 1 7 0 SDL_PRESSED),
    PushEvent (jbutton SDL_EVENT_JOYSTICK_BUTTON_DOWN 1 7 1 SDL_PRESSED)]"
  by code_simp





















text \<open>
  The axes of every handle are settled: \<open>SDL_OpenJoystick\<close> leaves them so and
  \<open>SDL_SendJoystickAxis\<close>, the only writer of the axis records, keeps them so.
\<close>

lemma axis_initial_value_cases:
  assumes "axis_initial_value info v = Some info1"
  shows "info1 = info\<lparr>initial_value := v, axis_value := v, axis_zero := v,
                       has_initial_value := True\<rparr>
       \<or> (has_initial_value info \<and> info1 = info\<lparr>has_second_value := True\<rparr>)"
  using assms by (auto simp: axis_initial_value_def split: if_splits)

lemma axis_initial_value_consistent:
  assumes "axis_initial_value info v = Some info1" and "axis_consistent info"
  shows "axis_consistent info1" "has_initial_value info1"
    "sending_initial_value info1 = sending_initial_value info"
    "sent_initial_value info1 = sent_initial_value info"
  using axis_initial_value_cases [OF assms(1)] assms(2)
  by (auto simp: axis_consistent_def)

lemma axis_send_nth:
  assumes "unat axis < length (axes joystick)"
  shows "axes (fst (snd (axis_send env timestamp joystick axis v events))) ! unat axis
           = axes joystick ! unat axis
       \<or> axes (fst (snd (axis_send env timestamp joystick axis v events))) ! unat axis
           = (axes joystick ! unat axis)\<lparr>axis_value := v\<rparr>"
  using assms unfolding axis_send_def Let_def set_axis_def
  by (auto simp: split_def)

lemma axis_send_consistent:
  assumes r: "unat axis < length (axes joystick)"
    and c: "axis_consistent (axes joystick ! unat axis)"
      "sent_initial_value (axes joystick ! unat axis)"
  shows "axis_consistent (axes (fst (snd (axis_send env timestamp joystick axis v events))) ! unat axis)
       \<and> sending_initial_value
           (axes (fst (snd (axis_send env timestamp joystick axis v events))) ! unat axis)
         = sending_initial_value (axes joystick ! unat axis)
       \<and> sent_initial_value
           (axes (fst (snd (axis_send env timestamp joystick axis v events))) ! unat axis)"
  using axis_send_nth [OF r, of env timestamp v events] c
  by (auto simp: axis_consistent_def)

lemma axes_changed_length:
  "axes_changed joystick a joystick' \<Longrightarrow> length (axes joystick') = length (axes joystick)"
  unfolding axes_changed_def by auto

lemma SDL_SendJoystickAxis_consistent:
  "unat axis < length (axes joystick) \<Longrightarrow> axis_consistent (axes joystick ! unat axis)
     \<Longrightarrow> axis_consistent
           (axes (fst (snd (SDL_SendJoystickAxis env timestamp joystick axis v))) ! unat axis)
         \<and> sending_initial_value
             (axes (fst (snd (SDL_SendJoystickAxis env timestamp joystick axis v))) ! unat axis)
           = sending_initial_value (axes joystick ! unat axis)
         \<and> (sent_initial_value (axes joystick ! unat axis)
              \<longrightarrow> sent_initial_value
                    (axes (fst (snd (SDL_SendJoystickAxis env timestamp joystick axis v)))
                       ! unat axis))"
proof (induction env timestamp joystick axis v rule: SDL_SendJoystickAxis.induct)
  case (1 env timestamp joystick axis v)
  have inrange: "\<not> int (unat axis) \<ge> naxes joystick"
    using "1.prems"(1) by (simp add: naxes_def int_le_uint)
  define info where "info = axes joystick ! unat axis"
  have ci: "axis_consistent info" using "1.prems"(2) by (simp add: info_def)
  show ?case
  proof (cases "axis_initial_value info v")
    case None
    then have "SDL_SendJoystickAxis env timestamp joystick axis v = (0, joystick, [])"
      using inrange by (subst SDL_SendJoystickAxis.simps) (simp add: info_def)
    then show ?thesis using "1.prems"(2) by simp
  next
    case (Some info1)
    note k = axis_initial_value_consistent [OF Some ci]
    define joystick0 where "joystick0 = set_axis joystick (unat axis) info1"
    have n0: "axes joystick0 ! unat axis = info1" "unat axis < length (axes joystick0)"
      using "1.prems"(1) by (simp_all add: joystick0_def set_axis_def)
    show ?thesis
    proof (cases "sent_initial_value info1")
      case True
      have res: "SDL_SendJoystickAxis env timestamp joystick axis v
                 = axis_send env timestamp joystick0 axis v []"
        using inrange Some True
        by (subst SDL_SendJoystickAxis.simps) (simp add: info_def joystick0_def)
      from axis_send_consistent [OF n0(2), of env timestamp v "[]"] k True
      show ?thesis unfolding res info_def [symmetric] by (simp add: n0(1))
    next
      case nsent: False
      have ns: "\<not> sending_initial_value info" "\<not> sent_initial_value info"
        using ci k(4) nsent by (auto simp: axis_consistent_def)
      show ?thesis
      proof (cases "\<bar>sint v - sint (axis_value info1)\<bar> \<le> SDL_JOYSTICK_AXIS_MAX div 80
               \<and> \<not> SDL_IsJoystickVIRTUAL (guid joystick)")
        case True
        have res: "SDL_SendJoystickAxis env timestamp joystick axis v = (0, joystick0, [])"
          using inrange Some nsent True
          by (subst SDL_SendJoystickAxis.simps) (simp add: info_def joystick0_def Let_def)
        show ?thesis unfolding res info_def [symmetric] using k ns by (simp add: n0(1))
      next
        case False
        define info2 where
          "info2 = info1\<lparr>sent_initial_value := True, sending_initial_value := True\<rparr>"
        define joystick1 where "joystick1 = set_axis joystick (unat axis) info2"
        define r where "r = SDL_SendJoystickAxis env timestamp joystick1 axis (initial_value info1)"
        define info3 where "info3 = axes (fst (snd r)) ! unat axis"
        define joystick3 where "joystick3 = set_axis (fst (snd r)) (unat axis)
                  (info3\<lparr>sending_initial_value := False\<rparr>)"
        have n1: "axes joystick1 ! unat axis = info2" "unat axis < length (axes joystick1)"
          using "1.prems"(1) by (simp_all add: joystick1_def set_axis_def)
        have c2: "axis_consistent (axes joystick1 ! unat axis)"
          using k(2) by (simp add: n1(1) info2_def axis_consistent_def)
        have ih: "axis_consistent info3 \<and> sending_initial_value info3 \<and> sent_initial_value info3"
          using "1.IH" [OF inrange Some [unfolded info_def] nsent refl _ refl n1(2) [unfolded joystick1_def info2_def]
                        c2 [unfolded joystick1_def info2_def]] False
          unfolding info3_def r_def joystick1_def info2_def
          by (simp add: n1(1) [unfolded joystick1_def info2_def] Let_def)
        have "axes_changed joystick1 (unat axis) (fst (snd r))"
          unfolding r_def by (rule SDL_SendJoystickAxis_changed)
        then have l3: "unat axis < length (axes (fst (snd r)))"
          using n1(2) by (simp add: axes_changed_length)
        have n3: "axes joystick3 ! unat axis = info3\<lparr>sending_initial_value := False\<rparr>"
          "unat axis < length (axes joystick3)"
          using l3 by (simp_all add: joystick3_def set_axis_def)
        have c3: "axis_consistent (axes joystick3 ! unat axis)"
          "sent_initial_value (axes joystick3 ! unat axis)"
          using ih by (simp_all add: n3(1) axis_consistent_def)
        have res: "SDL_SendJoystickAxis env timestamp joystick axis v
               = axis_send env timestamp joystick3 axis v (snd (snd r))"
          using inrange Some nsent False
          by (subst SDL_SendJoystickAxis.simps)
             (auto simp: Let_def split_def joystick3_def info3_def r_def joystick1_def info2_def
                info_def)
        from axis_send_consistent [OF n3(2) c3, of env timestamp v "snd (snd r)"]
        show ?thesis unfolding res info_def [symmetric] using ns by (simp add: n3(1))
      qed
    qed
  qed
qed

lemma SDL_SendJoystickAxis_settled:
  assumes "axes_settled joystick"
  shows "axes_settled (fst (snd (SDL_SendJoystickAxis env timestamp joystick axis v)))"
proof (cases "unat axis < length (axes joystick)")
  case False
  then have "SDL_SendJoystickAxis env timestamp joystick axis v = (0, joystick, [])"
    by (subst SDL_SendJoystickAxis.simps) (simp add: naxes_def int_le_uint)
  then show ?thesis using assms by simp
next
  case True
  define joystick' where
    "joystick' = fst (snd (SDL_SendJoystickAxis env timestamp joystick axis v))"
  have "axes joystick ! unat axis \<in> set (axes joystick)" using True by simp
  then have c: "axis_consistent (axes joystick ! unat axis)"
    "\<not> sending_initial_value (axes joystick ! unat axis)"
    using assms unfolding axes_settled_def by blast+
  from SDL_SendJoystickAxis_consistent [OF True c(1), of env timestamp v] c(2)
  have n: "axis_consistent (axes joystick' ! unat axis)"
    "\<not> sending_initial_value (axes joystick' ! unat axis)"
    by (simp_all add: joystick'_def)
  have "axes_changed joystick (unat axis) joystick'"
    unfolding joystick'_def by (rule SDL_SendJoystickAxis_changed)
  then obtain info uc where
    j: "joystick' = joystick\<lparr>axes := (axes joystick)[unat axis := info], update_complete := uc\<rparr>"
    unfolding axes_changed_def by blast
  have i: "info = axes joystick' ! unat axis" using True by (simp add: j)
  have "set (axes joystick') \<subseteq> insert info (set (axes joystick))"
    by (simp add: j set_update_subset_insert)
  then show ?thesis
    unfolding joystick'_def [symmetric] axes_settled_def
    using assms n i unfolding axes_settled_def by blast
qed

lemma send_report_settled:
  assumes "axes_settled joystick"
  shows "axes_settled (fst (snd (send_report env timestamp r joystick)))"
proof (cases r)
  case (AxisReport axis v)
  then show ?thesis using SDL_SendJoystickAxis_settled [OF assms] by simp
next
  case (HatReport hat v)
  then show ?thesis
    using assms by (simp add: SDL_SendJoystickHat_def axes_settled_def Let_def split_def)
next
  case (ButtonReport button state)
  then show ?thesis
    using assms by (simp add: SDL_SendJoystickButton_def axes_settled_def Let_def split_def)
qed

lemma driver_Update_settled:
  "axes_settled joystick \<Longrightarrow> axes_settled (fst (driver_Update env timestamp reports joystick))"
proof (induction reports arbitrary: joystick)
  case Nil
  then show ?case by simp
next
  case (Cons r reports)
  show ?case
    using Cons.IH [OF send_report_settled [OF Cons.prems, of env timestamp r]]
    by (simp add: split_def)
qed

lemma opened_joystick_settled: "axes_settled (opened_joystick c oracle h iid)"
  by (simp add: opened_joystick_def axes_settled_def axis_consistent_def new_joystick_def
      zeroed_axis_def Let_def)

lemma linked_joystick_settled:
  "axes_settled (fst (driver_Update env timestamp reports (opened_joystick c oracle h iid)))"
  by (rule driver_Update_settled [OF opened_joystick_settled])










end
